theory Spec2Isabelle
  imports Complex_Main "HOL-Library.Sublist"
begin

section \<open>benchmark\_plot.py: the iperf3 benchmark of a MACsec link against a plain link\<close>

text \<open>
  The script has five functions: \<open>run_iperf\<close> and \<open>start_iperf_s\<close> spawn iperf3 in a
  network namespace, \<open>parse_iperf_output\<close> decodes the client's JSON report into two
  lists, \<open>plot_bandwidth\<close> computes the statistics of two series and draws them, and
  \<open>main\<close> runs the two measurements one after the other.

  Conventions of the model.
  \<^item> Python's \<open>float\<close> is modelled by \<open>real\<close>: arithmetic is exact, there is no rounding,
    no infinity and no NaN. Python's \<open>int\<close> is \<open>int\<close>; the one bound of \<open>float\<close> that
    is kept is the one that makes the conversion of an \<open>int\<close> raise.
  \<^item> An exception is a value of type \<open>exn\<close>; a function that can raise returns
    \<open>exn + 'a\<close>, with \<open>Inl\<close> for the exception.
  \<^item> The standard library and iperf3 are not part of the script. What they deliver
    (the text a process wrote, the value \<open>json.loads\<close> built from it, whether
    \<open>Popen\<close> found the executable, the line the operator typed) is an input of the
    model.
\<close>

subsection \<open>Exceptions\<close>

datatype exn =
    NameError string
  | ValueError
  | OSError
  | AttributeError
  | TypeError
  | KeyError
  | UnicodeDecodeError
  | OverflowError
  | EOFError

subsection \<open>Decoded JSON values\<close>

text \<open>
  The value \<open>json.loads\<close> returns: \<open>None\<close>, \<open>bool\<close>, \<open>int\<close>, \<open>float\<close>, \<open>str\<close>,
  \<open>list\<close> or \<open>dict\<close>. A \<open>dict\<close> is an association list read with \<open>map_of\<close>.
\<close>

datatype json =
    JNull
  | JBool bool
  | JInt int
  | JFloat real
  | JString string
  | JArray "json list"
  | JObject "(string \<times> json) list"

text \<open>\<open>d.get(key, default)\<close>: only a \<open>dict\<close> has the method.\<close>

fun py_get :: "json \<Rightarrow> string \<Rightarrow> json \<Rightarrow> exn + json" where
  "py_get (JObject kvs) k dflt = Inr (case map_of kvs k of Some v \<Rightarrow> v | None \<Rightarrow> dflt)"
| "py_get _ k dflt = Inl AttributeError"

text \<open>
  Iterating a value, as \<open>enumerate(x)\<close> does: a list yields its elements, a \<open>dict\<close> its
  keys, a \<open>str\<close> its characters; the other values are not iterable.
\<close>

fun py_iter :: "json \<Rightarrow> exn + json list" where
  "py_iter (JArray xs) = Inr xs"
| "py_iter (JObject kvs) = Inr (map (\<lambda>kv. JString (fst kv)) kvs)"
| "py_iter (JString s) = Inr (map (\<lambda>c. JString [c]) s)"
| "py_iter _ = Inl TypeError"

text \<open>Whether \<open>pat\<close> occurs in \<open>s\<close> as a contiguous run of characters.\<close>

fun is_substring :: "string \<Rightarrow> string \<Rightarrow> bool" where
  "is_substring pat [] = (pat = [])"
| "is_substring pat (c # s) = (prefix pat (c # s) \<or> is_substring pat s)"

text \<open>
  \<open>key in x\<close>: a key of a \<open>dict\<close>, an element of a list, a substring of a \<open>str\<close>; on
  the other values the operator raises.
\<close>

fun py_contains :: "string \<Rightarrow> json \<Rightarrow> exn + bool" where
  "py_contains k (JObject kvs) = Inr (k \<in> set (map fst kvs))"
| "py_contains k (JArray xs) = Inr (JString k \<in> set xs)"
| "py_contains k (JString s) = Inr (is_substring k s)"
| "py_contains k _ = Inl TypeError"

text \<open>\<open>x[key]\<close> with a \<open>str\<close> key: only a \<open>dict\<close> accepts it.\<close>

fun py_getitem :: "json \<Rightarrow> string \<Rightarrow> exn + json" where
  "py_getitem (JObject kvs) k = (case map_of kvs k of Some v \<Rightarrow> Inr v | None \<Rightarrow> Inl KeyError)"
| "py_getitem _ k = Inl TypeError"

text \<open>
  \<open>x / 1e9\<close>: defined on \<open>int\<close>, \<open>float\<close> and \<open>bool\<close> (a subclass of \<open>int\<close>). An
  \<open>int\<close> is converted to \<open>float\<close> first, and the conversion raises \<open>OverflowError\<close>
  when the \<open>int\<close> rounds to a magnitude of \<open>2 ^ 1024\<close> or more.
\<close>

definition float_range :: "int \<Rightarrow> bool" where
  "float_range i = (\<bar>i\<bar> < 2 ^ 1024 - 2 ^ 970)"

fun py_div_1e9 :: "json \<Rightarrow> exn + real" where
  "py_div_1e9 (JInt i) =
     (if float_range i then Inr (real_of_int i / 1000000000) else Inl OverflowError)"
| "py_div_1e9 (JFloat x) = Inr (x / 1000000000)"
| "py_div_1e9 (JBool b) = Inr ((if b then 1 else 0) / 1000000000)"
| "py_div_1e9 _ = Inl TypeError"

subsection \<open>\<open>parse_iperf_output\<close>\<close>

text \<open>
  Lines 55 to 63 read the process's standard output to its end, decode each line as
  UTF-8, strip it, join the lines and hand the text to \<open>json.loads\<close>. Three things can
  come out of that, and they are the model's input:
  \<^item> \<open>Raises e\<close>: an exception other than \<open>JSONDecodeError\<close> is raised, by \<open>decode\<close> at
    line 57, before the \<open>try\<close>, when a line is not UTF-8 (\<open>UnicodeDecodeError\<close>), or by
    \<open>json.loads\<close>;
  \<^item> \<open>NotJSON msg\<close>: the text is not JSON, and \<open>json.loads\<close> raises \<open>JSONDecodeError\<close>
    with message \<open>msg\<close>;
  \<^item> \<open>Document d\<close>: \<open>json.loads\<close> returns the value \<open>d\<close>.
\<close>

datatype capture = Raises exn | NotJSON string | Document json

text \<open>
  One turn of the loop body (lines 69 to 74) on one record: it raises, or skips the
  record (\<open>None\<close>), or computes the bandwidth to append.
\<close>

definition interval_sample :: "json \<Rightarrow> exn + real option" where
  "interval_sample interval =
     (case py_get interval ''sum'' (JObject []) of
        Inl e \<Rightarrow> Inl e
      | Inr sum_data \<Rightarrow>
          (case py_contains ''bits_per_second'' sum_data of
             Inl e \<Rightarrow> Inl e
           | Inr False \<Rightarrow> Inr None
           | Inr True \<Rightarrow>
               (case py_getitem sum_data ''bits_per_second'' of
                  Inl e \<Rightarrow> Inl e
                | Inr v \<Rightarrow>
                    (case py_div_1e9 v of
                       Inl e \<Rightarrow> Inl e
                     | Inr bandwidth \<Rightarrow> Inr (Some bandwidth)))))"

text \<open>
  The loop of line 68, \<open>for idx, interval in enumerate(...)\<close>: \<open>idx\<close> counts every
  record, and the two lists grow together.
\<close>

fun intervals_loop :: "int \<Rightarrow> json list \<Rightarrow> int list \<Rightarrow> real list \<Rightarrow> exn + (int list \<times> real list)" where
  "intervals_loop idx [] timestamps bandwidths = Inr (timestamps, bandwidths)"
| "intervals_loop idx (interval # rest) timestamps bandwidths =
     (case interval_sample interval of
        Inl e \<Rightarrow> Inl e
      | Inr None \<Rightarrow> intervals_loop (idx + 1) rest timestamps bandwidths
      | Inr (Some bandwidth) \<Rightarrow>
          intervals_loop (idx + 1) rest (timestamps @ [idx + 1]) (bandwidths @ [bandwidth]))"

text \<open>The body of the \<open>try\<close> once \<open>json.loads\<close> has returned (lines 64 to 75).\<close>

definition parse_document :: "json \<Rightarrow> exn + (int list \<times> real list)" where
  "parse_document data =
     (case py_get data ''intervals'' (JArray []) of
        Inl e \<Rightarrow> Inl e
      | Inr intervals \<Rightarrow>
          (case py_iter intervals of
             Inl e \<Rightarrow> Inl e
           | Inr records \<Rightarrow> intervals_loop 0 records [] []))"

text \<open>
  The whole function: its result (the pair of lists, or the exception that leaves it)
  and the lines it prints. Only \<open>JSONDecodeError\<close> is caught (line 76).
\<close>

fun parse_iperf_output :: "capture \<Rightarrow> (exn + (int list \<times> real list)) \<times> string list" where
  "parse_iperf_output (Raises e) = (Inl e, [])"
| "parse_iperf_output (NotJSON msg) = (Inr ([], []), [''Error parsing JSON: '' @ msg])"
| "parse_iperf_output (Document data) = (parse_document data, [])"

subsection \<open>\<open>plot_bandwidth\<close>\<close>

text \<open>
  \<open>min(xs)\<close> and \<open>max(xs)\<close> on a list: the first element is the candidate, and a later
  element replaces it when it is strictly smaller (larger). On an empty list both raise
  \<open>ValueError\<close>.
\<close>

fun py_min :: "real list \<Rightarrow> exn + real" where
  "py_min [] = Inl ValueError"
| "py_min (x # xs) = Inr (foldl (\<lambda>best y. if y < best then y else best) x xs)"

fun py_max :: "real list \<Rightarrow> exn + real" where
  "py_max [] = Inl ValueError"
| "py_max (x # xs) = Inr (foldl (\<lambda>best y. if y > best then y else best) x xs)"

text \<open>\<open>min(a, b)\<close> and \<open>max(a, b)\<close> with two arguments, by the same rule.\<close>

definition py_min2 :: "real \<Rightarrow> real \<Rightarrow> real" where
  "py_min2 a b = (if b < a then b else a)"

definition py_max2 :: "real \<Rightarrow> real \<Rightarrow> real" where
  "py_max2 a b = (if b > a then b else a)"

text \<open>
  \<open>np.mean\<close>: the sum over the number of elements. (\<open>plot_bandwidth\<close> reaches it only
  with a non-empty list: \<open>min\<close> has raised before on an empty one.)
\<close>

definition np_mean :: "real list \<Rightarrow> real" where
  "np_mean xs = sum_list xs / real (length xs)"

text \<open>
  What \<open>plot_bandwidth\<close> hands to matplotlib: the two series, the statistics of lines 82
  to 88 that label the legend and place the four horizontal lines, and the limits of the
  y axis of lines 91 to 96. The tick positions and the text of the labels are made by
  numpy and matplotlib from these numbers. \<open>plot_bandwidth\<close> below is lines 82 to 96, the
  computation; the drawing of lines 98 to 133 is \<open>draw\<close>, further down.
\<close>

record figure =
  series1 :: "int list \<times> real list"
  series2 :: "int list \<times> real list"
  min_bandwidth1 :: real
  max_bandwidth1 :: real
  avg_bandwidth1 :: real
  min_bandwidth2 :: real
  max_bandwidth2 :: real
  avg_bandwidth2 :: real
  ylim_low :: real
  ylim_high :: real

definition plot_bandwidth :: "int list \<Rightarrow> real list \<Rightarrow> int list \<Rightarrow> real list \<Rightarrow> exn + figure" where
  "plot_bandwidth timestamps1 bandwidths1 timestamps2 bandwidths2 =
     (case py_min bandwidths1 of Inl e \<Rightarrow> Inl e | Inr min1 \<Rightarrow>
     (case py_max bandwidths1 of Inl e \<Rightarrow> Inl e | Inr max1 \<Rightarrow>
     (let avg1 = np_mean bandwidths1 in
     (case py_min bandwidths2 of Inl e \<Rightarrow> Inl e | Inr min2 \<Rightarrow>
     (case py_max bandwidths2 of Inl e \<Rightarrow> Inl e | Inr max2 \<Rightarrow>
     (let avg2 = np_mean bandwidths2;
          min_bandwidth = py_min2 min1 min2;
          max_bandwidth = py_max2 max1 max2;
          min_bandwidth = py_max2 (min_bandwidth * 0.8) 0.01;
          max_bandwidth = max_bandwidth * 1.2
      in Inr \<lparr> series1 = (timestamps1, bandwidths1),
               series2 = (timestamps2, bandwidths2),
               min_bandwidth1 = min1, max_bandwidth1 = max1, avg_bandwidth1 = avg1,
               min_bandwidth2 = min2, max_bandwidth2 = max2, avg_bandwidth2 = avg2,
               ylim_low = min_bandwidth, ylim_high = max_bandwidth \<rparr>))))))"

subsection \<open>Effects: the trace of a run\<close>

text \<open>
  What a run does to the outside is recorded as a list of events, in order. A process
  is named by the number of processes spawned before it. \<open>Plot\<close> is the call of
  \<open>plot_bandwidth\<close> with the two series, and \<open>Show\<close> is \<open>plt.show()\<close> at its last line.
\<close>

datatype event =
    Prompt string
  | Print string
  | Popen nat "string list"
  | Sleep nat
  | Progress string
  | Read nat
  | Terminate nat
  | Plot "int list \<times> real list" "int list \<times> real list"
  | Show "figure"

text \<open>
  What the outside answers:
  \<^item> \<open>globals\<close>: the names of the module's namespace that are bound to a \<open>str\<close>, for
    the names a function reads and does not assign. The file itself binds only its
    imports and its five functions;
  \<^item> \<open>entered\<close>: the value of \<open>int(input(...))\<close>, or the exception it raises
    (\<open>ValueError\<close> when the line typed is not an integer, \<open>EOFError\<close> when there is no
    line);
  \<^item> \<open>spawns n\<close>: whether the \<open>Popen\<close> that would create process \<open>n\<close> succeeds;
  \<^item> \<open>stdout_of n\<close>: what reading and decoding the output of process \<open>n\<close> gives.
\<close>

record world =
  globals :: "string \<Rightarrow> string option"
  entered :: "exn + int"
  spawns :: "nat \<Rightarrow> bool"
  stdout_of :: "nat \<Rightarrow> capture"

record state =
  trace :: "event list"
  spawned :: nat

type_synonym 'a io = "state \<Rightarrow> (exn + 'a) \<times> state"

definition ret :: "'a \<Rightarrow> 'a io" where
  "ret x = (\<lambda>s. (Inr x, s))"

definition raise :: "exn \<Rightarrow> 'a io" where
  "raise e = (\<lambda>s. (Inl e, s))"

definition bind :: "'a io \<Rightarrow> ('a \<Rightarrow> 'b io) \<Rightarrow> 'b io" where
  "bind m f = (\<lambda>s. case m s of (Inl e, s') \<Rightarrow> (Inl e, s') | (Inr a, s') \<Rightarrow> f a s')"

definition emit :: "event \<Rightarrow> unit io" where
  "emit e = (\<lambda>s. (Inr (), s\<lparr>trace := trace s @ [e]\<rparr>))"

definition lift :: "exn + 'a \<Rightarrow> 'a io" where
  "lift r = (\<lambda>s. (r, s))"

fun emit_all :: "event list \<Rightarrow> unit io" where
  "emit_all [] = ret ()"
| "emit_all (e # es) = bind (emit e) (\<lambda>_. emit_all es)"

text \<open>Reading a name that the function does not assign (a global).\<close>

definition lookup :: "world \<Rightarrow> string \<Rightarrow> string io" where
  "lookup w x = (case globals w x of None \<Rightarrow> raise (NameError x) | Some v \<Rightarrow> ret v)"

text \<open>\<open>subprocess.Popen(cmd, ...)\<close>: the new process, or \<open>OSError\<close>.\<close>

definition popen :: "world \<Rightarrow> string list \<Rightarrow> nat io" where
  "popen w cmd = (\<lambda>s.
     if spawns w (spawned s)
     then (Inr (spawned s), s\<lparr>trace := trace s @ [Popen (spawned s) cmd], spawned := spawned s + 1\<rparr>)
     else (Inl OSError, s))"

text \<open>\<open>str(n)\<close> for an \<open>int\<close>.\<close>

definition digit_char :: "nat \<Rightarrow> char" where
  "digit_char d = ''0123456789'' ! d"

function str_nat :: "nat \<Rightarrow> string" where
  "str_nat n = (if n < 10 then [digit_char n] else str_nat (n div 10) @ [digit_char (n mod 10)])"
  by pat_completeness auto
termination
  by (relation "measure id") auto

definition str :: "int \<Rightarrow> string" where
  "str i = (if i < 0 then CHR ''-'' # str_nat (nat (- i)) else str_nat (nat i))"

subsection \<open>\<open>run_iperf\<close> and \<open>start_iperf_s\<close>\<close>

definition run_iperf :: "world \<Rightarrow> string \<Rightarrow> int \<Rightarrow> string \<Rightarrow> nat io" where
  "run_iperf w server_ip duration namespace =
     popen w [''ip'', ''netns'', ''exec'', namespace, ''iperf3'', ''-c'', server_ip,
              ''-t'', str duration, ''-i'', ''1'', ''--json'']"

definition start_iperf_s :: "world \<Rightarrow> string \<Rightarrow> nat io" where
  "start_iperf_s w namespace = popen w [''ip'', ''netns'', ''exec'', namespace, ''iperf3'', ''-s'']"

subsection \<open>\<open>main\<close>\<close>

text \<open>
  \<open>parse_iperf_output(process)\<close> as \<open>main\<close> calls it: it reads the output of the
  process, prints what the function prints and returns or raises what it returns or
  raises.
\<close>

definition call_parse :: "world \<Rightarrow> nat \<Rightarrow> (int list \<times> real list) io" where
  "call_parse w process =
     bind (emit (Read process)) (\<lambda>_.
     bind (emit_all (map Print (snd (parse_iperf_output (stdout_of w process))))) (\<lambda>_.
     lift (fst (parse_iperf_output (stdout_of w process)))))"

text \<open>
  The drawing, lines 98 to 133 of \<open>plot_bandwidth\<close>. Three of its calls can raise:
  \<^item> \<open>plt.plot(timestamps1, bandwidths1, ...)\<close> at line 101 raises \<open>ValueError\<close> when the
    two lists differ in length, and so does line 102 for the second series;
  \<^item> when the upper limit is not positive (no value of either series is), \<open>np.log10\<close>
    at line 115 gives minus infinity or NaN, there is a NaN among the seven ticks, and
    \<open>plt.yticks\<close> at line 116 raises \<open>ValueError\<close> when it labels them.
  Otherwise the figure is shown at line 133.
\<close>

definition draw :: "figure \<Rightarrow> unit io" where
  "draw fig =
     (if length (fst (series1 fig)) \<noteq> length (snd (series1 fig)) then raise ValueError
      else if length (fst (series2 fig)) \<noteq> length (snd (series2 fig)) then raise ValueError
      else if ylim_high fig \<le> 0 then raise ValueError
      else emit (Show fig))"

text \<open>
  \<open>plot_bandwidth(...)\<close> as \<open>main\<close> calls it: the call is made, lines 82 to 96 compute
  the figure or raise, and lines 98 to 133 draw it or raise.
\<close>

definition call_plot :: "int list \<Rightarrow> real list \<Rightarrow> int list \<Rightarrow> real list \<Rightarrow> unit io" where
  "call_plot timestamps1 bandwidths1 timestamps2 bandwidths2 =
     bind (emit (Plot (timestamps1, bandwidths1) (timestamps2, bandwidths2))) (\<lambda>_.
     bind (lift (plot_bandwidth timestamps1 bandwidths1 timestamps2 bandwidths2)) (\<lambda>fig.
     draw fig))"

text \<open>\<open>for _ in tqdm(range(duration), desc=...): time.sleep(1)\<close>.\<close>

fun sleep_each :: "nat \<Rightarrow> unit io" where
  "sleep_each 0 = ret ()"
| "sleep_each (Suc n) = bind (emit (Sleep 1)) (\<lambda>_. sleep_each n)"

definition tqdm_loop :: "string \<Rightarrow> int \<Rightarrow> unit io" where
  "tqdm_loop desc duration = bind (emit (Progress desc)) (\<lambda>_. sleep_each (nat duration))"

text \<open>\<open>int(input(prompt))\<close>.\<close>

definition input_int :: "world \<Rightarrow> string \<Rightarrow> int io" where
  "input_int w prompt =
     bind (emit (Prompt prompt)) (\<lambda>_.
     case entered w of Inl e \<Rightarrow> raise e | Inr i \<Rightarrow> ret i)"

text \<open>
  The six string literals of lines 137, 138, 142, 143, 146 and 147, which the operator
  fills in. In the file as it is, all six are empty.
\<close>

record config =
  line137 :: string
  line138 :: string
  line142 :: string
  line143 :: string
  line146 :: string
  line147 :: string

definition as_shipped :: config where
  "as_shipped = \<lparr> line137 = [], line138 = [], line142 = [], line143 = [],
                  line146 = [], line147 = [] \<rparr>"

text \<open>
  \<open>main\<close>, line by line. \<open>server_macsec\<close> and \<open>server_plain\<close> are assigned twice (lines
  137/138 and again 146/147); \<open>server1\<close> and \<open>server2\<close> are read at lines 150 and 163 and
  assigned nowhere in the function, so they are looked up as globals.
\<close>

definition main :: "config \<Rightarrow> world \<Rightarrow> unit io" where
  "main cfg w =
     (let server_macsec = line137 cfg;
          server_plain = line138 cfg
      in
      bind (input_int w ''Enter the duration of the iperf test in seconds: '') (\<lambda>duration.
      let namespace_macsec = line142 cfg;
          namespace_plain = line143 cfg;
          server_macsec = line146 cfg;
          server_plain = line147 cfg
      in
      bind (emit (Print (''Starting iperf server in namespace '' @ server_macsec @ ''...''))) (\<lambda>_.
      bind (lookup w ''server1'') (\<lambda>server1.
      bind (start_iperf_s w server1) (\<lambda>server_proc1.
      bind (emit (Sleep 1)) (\<lambda>_.
      bind (emit (Print (''Running first iperf test in namespace '' @ namespace_macsec @
                         '' for '' @ str duration @ '' seconds...''))) (\<lambda>_.
      bind (run_iperf w server_macsec duration namespace_macsec) (\<lambda>process1.
      bind (tqdm_loop ''MACsec Progress'' duration) (\<lambda>_.
      bind (call_parse w process1) (\<lambda>(timestamps1, bandwidths1).
      bind (emit (Terminate server_proc1)) (\<lambda>_.
      bind (emit (Print (''Starting iperf server in namespace '' @ server_plain @ ''...''))) (\<lambda>_.
      bind (lookup w ''server2'') (\<lambda>server2.
      bind (start_iperf_s w server2) (\<lambda>server_proc2.
      bind (emit (Sleep 1)) (\<lambda>_.
      bind (emit (Print (''Running second iperf test in namespace '' @ namespace_plain @
                         '' for '' @ str duration @ '' seconds...''))) (\<lambda>_.
      bind (run_iperf w server_macsec duration namespace_plain) (\<lambda>process2.
      bind (tqdm_loop ''Plain Progress'' duration) (\<lambda>_.
      bind (call_parse w process2) (\<lambda>(timestamps2, bandwidths2).
      bind (emit (Terminate server_proc2)) (\<lambda>_.
      if timestamps1 \<noteq> [] \<and> bandwidths1 \<noteq> [] \<and> timestamps2 \<noteq> [] \<and> bandwidths2 \<noteq> []
      then call_plot timestamps1 bandwidths1 timestamps2 bandwidths2
      else emit (Print ''No data received. Check if the iperf server is running properly.'')
      ))))))))))))))))))))"

text \<open>A run starts with an empty trace and no process.\<close>

definition run :: "config \<Rightarrow> world \<Rightarrow> (exn + unit) \<times> state" where
  "run cfg w = main cfg w \<lparr> trace = [], spawned = 0 \<rparr>"

section \<open>Vocabulary of the properties\<close>

subsection \<open>Interval records\<close>

text \<open>
  The words of the specification about a report: each interval record has a nested
  aggregate object (the member \<open>sum\<close>) that may contain a numeric bits-per-second
  field. A record with no \<open>sum\<close> member has an empty aggregate.
\<close>

definition aggregate_of :: "json \<Rightarrow> (string \<times> json) list option" where
  "aggregate_of r =
     (case r of
        JObject kvs \<Rightarrow>
          (case map_of kvs ''sum'' of
             None \<Rightarrow> Some []
           | Some (JObject agg) \<Rightarrow> Some agg
           | Some _ \<Rightarrow> None)
      | _ \<Rightarrow> None)"

text \<open>
  A number of the report, as the \<open>float\<close> it stands for: a \<open>float\<close>, or an \<open>int\<close> within
  the range of \<open>float\<close>.
\<close>

fun json_number :: "json \<Rightarrow> real option" where
  "json_number (JInt i) = (if float_range i then Some (real_of_int i) else None)"
| "json_number (JFloat x) = Some x"
| "json_number _ = None"

text \<open>The raw bits-per-second value of a record, when it carries one.\<close>

definition raw_bits_per_second :: "json \<Rightarrow> real option" where
  "raw_bits_per_second r =
     (case aggregate_of r of
        None \<Rightarrow> None
      | Some agg \<Rightarrow> (case map_of agg ''bits_per_second'' of None \<Rightarrow> None | Some v \<Rightarrow> json_number v))"

definition carries_throughput :: "json \<Rightarrow> bool" where
  "carries_throughput r = (raw_bits_per_second r \<noteq> None)"

definition lacks_throughput :: "json \<Rightarrow> bool" where
  "lacks_throughput r =
     (case aggregate_of r of None \<Rightarrow> False | Some agg \<Rightarrow> map_of agg ''bits_per_second'' = None)"

subsection \<open>Events of a run\<close>

fun is_plot :: "event \<Rightarrow> bool" where
  "is_plot (Plot series_a series_b) = True"
| "is_plot _ = False"

fun is_show :: "event \<Rightarrow> bool" where
  "is_show (Show fig) = True"
| "is_show _ = False"

text \<open>The process an event is about, if any.\<close>

fun process_of :: "event \<Rightarrow> nat option" where
  "process_of (Popen h cmd) = Some h"
| "process_of (Read h) = Some h"
| "process_of (Terminate h) = Some h"
| "process_of _ = None"

text \<open>
  \<open>main\<close> spawns at most four processes, in this order: \<open>server_proc1\<close> (process 0)
  and \<open>process1\<close> (process 1) for the MACsec measurement, \<open>server_proc2\<close> (process 2) and
  \<open>process2\<close> (process 3) for the plain one.
\<close>

definition encrypted_step :: "event \<Rightarrow> bool" where
  "encrypted_step e = (process_of e = Some 0 \<or> process_of e = Some 1)"

definition plain_step :: "event \<Rightarrow> bool" where
  "plain_step e = (process_of e = Some 2 \<or> process_of e = Some 3)"

text \<open>The two command lines, as \<open>start_iperf_s\<close> and \<open>run_iperf\<close> build them.\<close>

definition server_cmd :: "string \<Rightarrow> string list" where
  "server_cmd namespace = [''ip'', ''netns'', ''exec'', namespace, ''iperf3'', ''-s'']"

definition client_cmd :: "string \<Rightarrow> int \<Rightarrow> string \<Rightarrow> string list" where
  "client_cmd server_ip duration namespace =
     [''ip'', ''netns'', ''exec'', namespace, ''iperf3'', ''-c'', server_ip,
      ''-t'', str duration, ''-i'', ''1'', ''--json'']"

subsection \<open>The two measurements of \<open>main\<close>\<close>

text \<open>
  Lines 149 to 160 and lines 162 to 173 of \<open>main\<close> are the same nine steps with
  different arguments. \<open>session_steps\<close> is these nine steps; \<open>main_sessions\<close> below
  proves that \<open>main\<close> is the prompt, the steps twice, and lines 175 to 178 (\<open>report\<close>).
\<close>

definition session_steps ::
  "world \<Rightarrow> string \<Rightarrow> string \<Rightarrow> string \<Rightarrow> string \<Rightarrow> int \<Rightarrow> string \<Rightarrow> string \<Rightarrow> (int list \<times> real list) io" where
  "session_steps w announcement server_name running server_ip duration namespace desc =
     bind (emit (Print announcement)) (\<lambda>_.
     bind (lookup w server_name) (\<lambda>server.
     bind (start_iperf_s w server) (\<lambda>server_proc.
     bind (emit (Sleep 1)) (\<lambda>_.
     bind (emit (Print running)) (\<lambda>_.
     bind (run_iperf w server_ip duration namespace) (\<lambda>process.
     bind (tqdm_loop desc duration) (\<lambda>_.
     bind (call_parse w process) (\<lambda>result.
     bind (emit (Terminate server_proc)) (\<lambda>_.
     ret result)))))))))"

definition report :: "int list \<times> real list \<Rightarrow> int list \<times> real list \<Rightarrow> unit io" where
  "report result1 result2 =
     (if fst result1 \<noteq> [] \<and> snd result1 \<noteq> [] \<and> fst result2 \<noteq> [] \<and> snd result2 \<noteq> []
      then call_plot (fst result1) (snd result1) (fst result2) (snd result2)
      else emit (Print ''No data received. Check if the iperf server is running properly.''))"

definition announce :: "string \<Rightarrow> string" where
  "announce namespace = ''Starting iperf server in namespace '' @ namespace @ ''...''"

definition running_first :: "string \<Rightarrow> int \<Rightarrow> string" where
  "running_first namespace duration =
     ''Running first iperf test in namespace '' @ namespace @ '' for '' @ str duration @ '' seconds...''"

definition running_second :: "string \<Rightarrow> int \<Rightarrow> string" where
  "running_second namespace duration =
     ''Running second iperf test in namespace '' @ namespace @ '' for '' @ str duration @ '' seconds...''"

text \<open>
  The events of one measurement from its first line to the end of
  \<open>parse_iperf_output\<close>, when both processes could be spawned; \<open>k\<close> is the number of
  the server process.
\<close>

definition until_parsed ::
  "nat \<Rightarrow> string \<Rightarrow> string \<Rightarrow> string \<Rightarrow> string \<Rightarrow> int \<Rightarrow> string \<Rightarrow> string \<Rightarrow> string list \<Rightarrow> event list" where
  "until_parsed k announcement server running server_ip duration namespace desc printed =
     [Print announcement, Popen k (server_cmd server), Sleep 1, Print running,
      Popen (Suc k) (client_cmd server_ip duration namespace), Progress desc]
     @ replicate (nat duration) (Sleep 1) @ [Read (Suc k)] @ map Print printed"

definition macsec_events :: "config \<Rightarrow> world \<Rightarrow> int \<Rightarrow> event list" where
  "macsec_events cfg w d =
     until_parsed 0 (announce (line146 cfg)) (the (globals w ''server1'')) (running_first (line142 cfg) d)
       (line146 cfg) d (line142 cfg) ''MACsec Progress'' (snd (parse_iperf_output (stdout_of w 1)))"

definition plain_events :: "config \<Rightarrow> world \<Rightarrow> int \<Rightarrow> event list" where
  "plain_events cfg w d =
     until_parsed 2 (announce (line147 cfg)) (the (globals w ''server2'')) (running_second (line143 cfg) d)
       (line146 cfg) d (line143 cfg) ''Plain Progress'' (snd (parse_iperf_output (stdout_of w 3)))"

subsection \<open>Two settings for concrete runs\<close>

text \<open>
  \<open>filled_in\<close> is a configuration with six different values. \<open>untouched\<close> is the module
  as the file leaves it: no global is a \<open>str\<close>. \<open>patched\<close> is the module after a caller
  has bound \<open>server1\<close> and \<open>server2\<close> in its namespace, to names that occur nowhere in the
  configuration. In both every \<open>Popen\<close> succeeds. \<open>iperf_report\<close> is a report whose
  records all carry the given values; \<open>two_reports\<close> gives each client a report of
  two records, and \<open>idle_reports\<close> a report of two records with the value 0.
\<close>

definition filled_in :: config where
  "filled_in = \<lparr> line137 = ''10.0.0.2'', line138 = ''10.0.1.2'', line142 = ''ns1'', line143 = ''ns3'',
                 line146 = ''ns2'', line147 = ''ns4'' \<rparr>"

definition iperf_report :: "real list \<Rightarrow> json" where
  "iperf_report values =
     JObject [(''intervals'',
               JArray (map (\<lambda>v. JObject [(''sum'', JObject [(''bits_per_second'', JFloat v)])]) values))]"

definition untouched :: "int \<Rightarrow> (nat \<Rightarrow> capture) \<Rightarrow> world" where
  "untouched d out = \<lparr> globals = (\<lambda>name. None), entered = Inr d, spawns = (\<lambda>n. True), stdout_of = out \<rparr>"

definition patched :: "int \<Rightarrow> (nat \<Rightarrow> capture) \<Rightarrow> world" where
  "patched d out =
     \<lparr> globals = map_of [(''server1'', ''g1''), (''server2'', ''g2'')], entered = Inr d,
       spawns = (\<lambda>n. True), stdout_of = out \<rparr>"

definition two_reports :: "nat \<Rightarrow> capture" where
  "two_reports h =
     (if h = 1 then Document (iperf_report [9400000000, 9100000000])
      else Document (iperf_report [9500000000, 9300000000]))"

definition idle_reports :: "nat \<Rightarrow> capture" where
  "idle_reports h = Document (iperf_report [0, 0])"

section \<open>Properties of \<open>parse_iperf_output\<close>\<close>

subsection \<open>One record, and the loop\<close>

lemma map_of_in_keys: "(k \<in> fst ` set kvs) = (map_of kvs k \<noteq> None)"
  by (induction kvs) auto

lemma interval_sample_carries:
  "carries_throughput r \<Longrightarrow> interval_sample r = Inr (Some (the (raw_bits_per_second r) / 1000000000))"
  unfolding carries_throughput_def raw_bits_per_second_def aggregate_of_def interval_sample_def
  by (auto split: json.splits option.splits if_splits simp: map_of_in_keys elim!: json_number.elims)

lemma interval_sample_lacks:
  "lacks_throughput r \<Longrightarrow> interval_sample r = Inr None"
  unfolding lacks_throughput_def aggregate_of_def interval_sample_def
  by (auto split: json.splits option.splits simp: map_of_in_keys)

lemma lacks_not_carries: "lacks_throughput r \<Longrightarrow> \<not> carries_throughput r"
  unfolding lacks_throughput_def carries_throughput_def raw_bits_per_second_def
  by (auto split: option.splits)

text \<open>
  The loop started at position \<open>n\<close>: a record that carries the field is appended with
  its position plus one, a record that lacks it is passed over and still counted.
\<close>

lemma intervals_loop_shape:
  "\<forall>r\<in>set rs. carries_throughput r \<or> lacks_throughput r \<Longrightarrow>
   intervals_loop (int n) rs ts bs =
     Inr (ts @ map (\<lambda>p. int (fst p) + 1) (filter (\<lambda>p. carries_throughput (snd p)) (enumerate n rs)),
          bs @ map (\<lambda>r. the (raw_bits_per_second r) / 1000000000) (filter carries_throughput rs))"
proof (induction rs arbitrary: n ts bs)
  case Nil
  then show ?case by simp
next
  case (Cons r rs)
  have step: "int n + 1 = int (Suc n)" by simp
  from Cons.prems have rest: "\<forall>r\<in>set rs. carries_throughput r \<or> lacks_throughput r" by simp
  show ?case
  proof (cases "carries_throughput r")
    case True
    then show ?thesis
      using Cons.IH [OF rest, of "Suc n"]
      by (simp only: intervals_loop.simps interval_sample_carries step) simp
  next
    case False
    with Cons.prems have "lacks_throughput r" by simp
    then show ?thesis
      using Cons.IH [OF rest, of "Suc n"] False
      by (simp only: intervals_loop.simps interval_sample_lacks step) simp
  qed
qed

lemma intervals_loop_lengths:
  "intervals_loop idx rs ts bs = Inr (ts', bs') \<Longrightarrow> length ts = length bs \<Longrightarrow> length ts' = length bs'"
  by (induction rs arbitrary: idx ts bs) (auto split: sum.splits option.splits)

lemma filter_enumerate_snd:
  "map snd (filter (\<lambda>p. P (snd p)) (enumerate n xs)) = filter P xs"
  by (induction xs arbitrary: n) auto

lemma length_filter_enumerate:
  "length (filter (\<lambda>p. P (snd p)) (enumerate n xs)) = length (filter P xs)"
  using filter_enumerate_snd [of P n xs] by (metis length_map)

lemma positions_increasing:
  "sorted_wrt (<) (map (\<lambda>p. int (fst p) + 1) (filter Q (enumerate n xs)))"
proof -
  have "sorted_wrt (<) (map fst (enumerate n xs))"
    by simp
  then have "sorted_wrt (\<lambda>p q. fst p < fst q) (enumerate n xs)"
    by (simp only: sorted_wrt_map)
  then have "sorted_wrt (\<lambda>p q. fst p < fst q) (filter Q (enumerate n xs))"
    by (rule sorted_wrt_filter)
  then have "sorted_wrt (\<lambda>p q. int (fst p) + 1 < int (fst q) + 1) (filter Q (enumerate n xs))"
    by (rule sorted_wrt_mono_rel [rotated]) simp
  then show ?thesis
    by (simp only: sorted_wrt_map)
qed

lemma positions_all:
  "map (\<lambda>p. int (fst p) + 1) (enumerate n xs) = map int [Suc n..<Suc (n + length xs)]"
proof (induction xs arbitrary: n)
  case Nil
  then show ?case by simp
next
  case (Cons x xs)
  have "Suc n < Suc (n + length (x # xs))" by simp
  from upt_conv_Cons [OF this]
  have "[Suc n..<Suc (n + length (x # xs))] = Suc n # [Suc (Suc n)..<Suc (Suc n + length xs)]"
    by simp
  with Cons.IH [of "Suc n"] show ?case by simp
qed

lemma carries_or_lacks_count:
  "\<forall>r\<in>set rs. carries_throughput r \<or> lacks_throughput r \<Longrightarrow>
   length (filter carries_throughput rs) = length rs - length (filter lacks_throughput rs)"
proof (induction rs)
  case Nil
  then show ?case by simp
next
  case (Cons r rs)
  have "length (filter lacks_throughput rs) \<le> length rs" by simp
  with Cons show ?case
    by (auto dest: lacks_not_carries simp: Suc_diff_le)
qed

lemma parse_object_intervals:
  "map_of members ''intervals'' = Some (JArray records) \<Longrightarrow>
   fst (parse_iperf_output (Document (JObject members))) = intervals_loop 0 records [] []"
  by (simp add: parse_document_def)

lemma parse_same_length:
  "fst (parse_iperf_output c) = Inr (ts, bs) \<Longrightarrow> length ts = length bs"
proof (cases c)
  case (Raises e)
  assume "fst (parse_iperf_output c) = Inr (ts, bs)"
  with Raises show ?thesis by simp
next
  case (NotJSON msg)
  assume "fst (parse_iperf_output c) = Inr (ts, bs)"
  with NotJSON show ?thesis by simp
next
  case (Document d)
  assume "fst (parse_iperf_output c) = Inr (ts, bs)"
  with Document have "parse_document d = Inr (ts, bs)" by simp
  then obtain rs where "intervals_loop 0 rs [] [] = Inr (ts, bs)"
    by (auto simp: parse_document_def split: sum.splits)
  then show ?thesis
    using intervals_loop_lengths by fastforce
qed

subsection \<open>Indices of the samples\<close>

text \<open>
  Claim C1, as stated: when M of N records lack the field, the N - M samples have the
  indices 1 to N - M. It fails on this report of two records: the first has no
  \<open>bits_per_second\<close>, the second has 2e9. N = 2 and M = 1, the one sample should have
  index 1, and \<open>parse_iperf_output\<close> gives it index 2, the position of its record
  (\<open>idx + 1\<close> at line 74, with \<open>idx\<close> from \<open>enumerate\<close>).
\<close>

theorem parse_indices_not_dense:
  "fst (parse_iperf_output (Document (JObject [(''intervals'', JArray
      [JObject [(''sum'', JObject [])],
       JObject [(''sum'', JObject [(''bits_per_second'', JInt 2000000000)])]])])))
   = Inr ([2], [2])
   \<and> [2] \<noteq> map int [1..<Suc (2 - 1)]"
  by (simp add: parse_document_def interval_sample_def float_range_def)

text \<open>
  Claim C1, amended: for a report whose N records each carry a numeric
  \<open>bits_per_second\<close> or lack the field (M of them), \<open>parse_iperf_output\<close> returns
  exactly N - M samples, in document order; the index of a sample is the position of its
  record in the report, counted from 1 over all records. The indices are therefore
  strictly increasing, and a record that lacks the field does use up an index.
\<close>

theorem parse_indices_are_positions:
  assumes "map_of members ''intervals'' = Some (JArray records)"
    and "\<forall>r\<in>set records. carries_throughput r \<or> lacks_throughput r"
  shows "\<exists>ts bs. fst (parse_iperf_output (Document (JObject members))) = Inr (ts, bs)
           \<and> ts = map (\<lambda>p. int (fst p) + 1) (filter (\<lambda>p. carries_throughput (snd p)) (enumerate 0 records))
           \<and> bs = map (\<lambda>r. the (raw_bits_per_second r) / 1000000000) (filter carries_throughput records)
           \<and> length ts = length records - length (filter lacks_throughput records)
           \<and> length bs = length records - length (filter lacks_throughput records)
           \<and> sorted_wrt (<) ts"
proof -
  have "fst (parse_iperf_output (Document (JObject members))) = intervals_loop (int 0) records [] []"
    using parse_object_intervals [OF assms(1)] by simp
  also have "\<dots> = Inr (map (\<lambda>p. int (fst p) + 1) (filter (\<lambda>p. carries_throughput (snd p)) (enumerate 0 records)),
                      map (\<lambda>r. the (raw_bits_per_second r) / 1000000000) (filter carries_throughput records))"
    using intervals_loop_shape [OF assms(2), of 0 "[]" "[]"] by simp
  finally show ?thesis
    using carries_or_lacks_count [OF assms(2)]
    by (simp add: length_filter_enumerate positions_increasing)
qed

text \<open>
  A report of four records, the second and the third without the field: the samples
  have the indices 1 and 4.
\<close>

theorem parse_indices_are_positions_witness:
  "fst (parse_iperf_output (Document (JObject [(''start'', JNull), (''intervals'', JArray
      [JObject [(''sum'', JObject [(''bits_per_second'', JFloat 9400000000)])],
       JObject [(''sum'', JObject [(''bytes'', JInt 7)])],
       JObject [(''streams'', JArray [])],
       JObject [(''sum'', JObject [(''bits_per_second'', JInt 500000000)])]])])))
   = Inr ([1, 4], [94 / 10, 1 / 2])"
  using parse_indices_are_positions [of
      "[(''start'', JNull), (''intervals'', JArray
      [JObject [(''sum'', JObject [(''bits_per_second'', JFloat 9400000000)])],
       JObject [(''sum'', JObject [(''bytes'', JInt 7)])],
       JObject [(''streams'', JArray [])],
       JObject [(''sum'', JObject [(''bits_per_second'', JInt 500000000)])]])]"
      "[JObject [(''sum'', JObject [(''bits_per_second'', JFloat 9400000000)])],
       JObject [(''sum'', JObject [(''bytes'', JInt 7)])],
       JObject [(''streams'', JArray [])],
       JObject [(''sum'', JObject [(''bits_per_second'', JInt 500000000)])]]"]
  by (simp add: carries_throughput_def lacks_throughput_def raw_bits_per_second_def
      aggregate_of_def float_range_def enumerate_eq_zip upt_rec)

text \<open>
  Claim C7: when all N records of a report carry a numeric \<open>bits_per_second\<close>,
  \<open>parse_iperf_output\<close> returns N samples with the indices 1 to N, and the value of each
  is the raw value of its record divided by 1e9. (The division is exact in this model,
  where \<open>float\<close> is \<open>real\<close>.)
\<close>

theorem parse_all_records_carry:
  assumes "map_of members ''intervals'' = Some (JArray records)"
    and "\<forall>r\<in>set records. carries_throughput r"
  shows "fst (parse_iperf_output (Document (JObject members))) =
           Inr (map int [1..<Suc (length records)],
                map (\<lambda>r. the (raw_bits_per_second r) / 1000000000) records)"
proof -
  from assms(2) have all: "\<forall>r\<in>set records. carries_throughput r \<or> lacks_throughput r"
    by simp
  from assms(2) have keep: "filter carries_throughput records = records"
    by simp
  from assms(2) have keep': "filter (\<lambda>p. carries_throughput (snd p)) (enumerate 0 records) = enumerate 0 records"
    by (auto simp: filter_id_conv in_set_enumerate_eq)
  have "fst (parse_iperf_output (Document (JObject members))) = intervals_loop (int 0) records [] []"
    using parse_object_intervals [OF assms(1)] by simp
  then show ?thesis
    using intervals_loop_shape [OF all, of 0 "[]" "[]"] positions_all [of 0 records]
    by (simp add: keep keep')
qed

theorem parse_all_records_carry_witness:
  "fst (parse_iperf_output (Document (JObject [(''intervals'', JArray
      [JObject [(''sum'', JObject [(''bits_per_second'', JFloat 9400000000)])],
       JObject [(''sum'', JObject [(''bits_per_second'', JInt 500000000), (''bytes'', JInt 7)])],
       JObject [(''sum'', JObject [(''bits_per_second'', JInt 0)])]]), (''end'', JObject [])])))
   = Inr ([1, 2, 3], [94 / 10, 1 / 2, 0])"
  using parse_all_records_carry [of
      "[(''intervals'', JArray
      [JObject [(''sum'', JObject [(''bits_per_second'', JFloat 9400000000)])],
       JObject [(''sum'', JObject [(''bits_per_second'', JInt 500000000), (''bytes'', JInt 7)])],
       JObject [(''sum'', JObject [(''bits_per_second'', JInt 0)])]]), (''end'', JObject [])]"
      "[JObject [(''sum'', JObject [(''bits_per_second'', JFloat 9400000000)])],
       JObject [(''sum'', JObject [(''bits_per_second'', JInt 500000000), (''bytes'', JInt 7)])],
       JObject [(''sum'', JObject [(''bits_per_second'', JInt 0)])]]"]
  by (simp add: carries_throughput_def raw_bits_per_second_def aggregate_of_def float_range_def
      upt_rec)

subsection \<open>Lengths of the two lists\<close>

text \<open>
  Claim C10: whenever \<open>parse_iperf_output\<close> returns, after a successful decode or after
  a decode failure, the two lists it returns have the same length.
\<close>

theorem parse_lists_same_length:
  "fst (parse_iperf_output c) = Inr (ts, bs) \<Longrightarrow> length ts = length bs"
  by (rule parse_same_length)

text \<open>Both return paths: a report with one sample out of two records, and a text that is not JSON.\<close>

theorem parse_lists_same_length_witness:
  "fst (parse_iperf_output (Document (JObject [(''intervals'', JArray
      [JObject [(''sum'', JObject [])],
       JObject [(''sum'', JObject [(''bits_per_second'', JInt 2000000000)])]])]))) = Inr ([2], [2])
   \<and> length [2::int] = length [2::real]
   \<and> fst (parse_iperf_output (NotJSON ''Expecting value'')) = Inr ([], [])
   \<and> length ([]::int list) = length ([]::real list)"
proof -
  have a: "fst (parse_iperf_output (Document (JObject [(''intervals'', JArray
      [JObject [(''sum'', JObject [])],
       JObject [(''sum'', JObject [(''bits_per_second'', JInt 2000000000)])]])]))) = Inr ([2], [2])"
    by (simp add: parse_document_def interval_sample_def float_range_def)
  have b: "fst (parse_iperf_output (NotJSON ''Expecting value'')) = Inr ([], [])"
    by simp
  from a b parse_lists_same_length [OF a] parse_lists_same_length [OF b] show ?thesis
    by blast
qed

subsection \<open>Decode failure\<close>

text \<open>
  Claim C2, as stated: no exception leaves the parser, whatever the input. It fails
  when the process wrote the JSON text \<open>[]\<close>: \<open>json.loads\<close> returns an empty list, a
  list has no \<open>get\<close>, and the \<open>AttributeError\<close> of line 68 is not a \<open>JSONDecodeError\<close>.
\<close>

theorem parse_exception_escapes:
  "fst (parse_iperf_output (Document (JArray []))) = Inl AttributeError"
  by (simp add: parse_document_def)

text \<open>
  Claim C2, amended: when the captured text is not JSON (\<open>json.loads\<close> raises
  \<open>JSONDecodeError\<close>), \<open>parse_iperf_output\<close> returns two empty lists and prints one
  diagnostic line, and no exception leaves it; it prints nothing on any other input.
\<close>

theorem parse_not_json:
  "parse_iperf_output (NotJSON msg) = (Inr ([], []), [''Error parsing JSON: '' @ msg])
   \<and> (snd (parse_iperf_output c) \<noteq> [] \<longleftrightarrow> (\<exists>m. c = NotJSON m))"
  by (cases c) auto

section \<open>Properties of \<open>plot_bandwidth\<close>\<close>

lemma foldl_smaller_is_fold_min:
  "foldl (\<lambda>best y. if y < best then y else best) (x::real) xs = fold min xs x"
  by (induction xs arbitrary: x) (simp_all add: min_def not_less)

lemma foldl_larger_is_fold_max:
  "foldl (\<lambda>best y. if y > best then y else best) (x::real) xs = fold max xs x"
  by (induction xs arbitrary: x) (simp_all add: max_def not_less)

lemma py_min_Min: "xs \<noteq> [] \<Longrightarrow> py_min xs = Inr (Min (set xs))"
proof (cases xs)
  case Nil
  assume "xs \<noteq> []"
  with Nil show ?thesis by simp
next
  case (Cons x rest)
  have "Min (set (x # rest)) = fold min rest x"
    by (rule Min.set_eq_fold)
  with Cons show ?thesis
    by (simp add: foldl_smaller_is_fold_min)
qed

lemma py_max_Max: "xs \<noteq> [] \<Longrightarrow> py_max xs = Inr (Max (set xs))"
proof (cases xs)
  case Nil
  assume "xs \<noteq> []"
  with Nil show ?thesis by simp
next
  case (Cons x rest)
  have "Max (set (x # rest)) = fold max rest x"
    by (rule Max.set_eq_fold)
  with Cons show ?thesis
    by (simp add: foldl_larger_is_fold_max)
qed

lemma py_min2_min: "py_min2 a b = min a b"
  by (simp add: py_min2_def min_def)

lemma py_max2_max: "py_max2 a b = max a b"
  by (simp add: py_max2_def max_def)

lemma plot_bandwidth_nonempty:
  assumes "bandwidths1 \<noteq> []" and "bandwidths2 \<noteq> []"
  shows "plot_bandwidth timestamps1 bandwidths1 timestamps2 bandwidths2 =
    Inr \<lparr> series1 = (timestamps1, bandwidths1),
          series2 = (timestamps2, bandwidths2),
          min_bandwidth1 = Min (set bandwidths1),
          max_bandwidth1 = Max (set bandwidths1),
          avg_bandwidth1 = sum_list bandwidths1 / real (length bandwidths1),
          min_bandwidth2 = Min (set bandwidths2),
          max_bandwidth2 = Max (set bandwidths2),
          avg_bandwidth2 = sum_list bandwidths2 / real (length bandwidths2),
          ylim_low = max (min (Min (set bandwidths1)) (Min (set bandwidths2)) * 0.8) 0.01,
          ylim_high = max (Max (set bandwidths1)) (Max (set bandwidths2)) * 1.2 \<rparr>"
  using assms
  by (simp add: plot_bandwidth_def py_min_Min py_max_Max py_min2_min py_max2_max np_mean_def)

text \<open>
  Claim C6: for two non-empty value lists, the lower limit of the y axis is
  \<open>max (0.8 * min (minA, minB), 0.01)\<close>, the upper limit is \<open>1.2 * max (maxA, maxB)\<close>, and
  the lower limit is positive, also when the smallest value is 0.
\<close>

theorem plot_y_range:
  assumes "bandwidths1 \<noteq> []" and "bandwidths2 \<noteq> []"
  shows "\<exists>fig. plot_bandwidth timestamps1 bandwidths1 timestamps2 bandwidths2 = Inr fig
           \<and> ylim_low fig = max (0.8 * min (Min (set bandwidths1)) (Min (set bandwidths2))) 0.01
           \<and> ylim_high fig = 1.2 * max (Max (set bandwidths1)) (Max (set bandwidths2))
           \<and> 0 < ylim_low fig"
  using plot_bandwidth_nonempty [OF assms, of timestamps1 timestamps2]
  by (simp add: mult.commute)

text \<open>A series whose smallest value is 0: the lower limit is the floor 0.01.\<close>

theorem plot_y_range_witness:
  "\<exists>fig. plot_bandwidth [1, 2, 3] [0, 2.5, 1] [1, 2] [9.4, 8] = Inr fig
     \<and> ylim_low fig = 0.01 \<and> ylim_high fig = 11.28 \<and> 0 < ylim_low fig"
  using plot_y_range [of "[0, 2.5, 1]" "[9.4, 8]" "[1, 2, 3]" "[1, 2]"]
  by simp

text \<open>
  Claim C8: for two non-empty value lists, the statistics \<open>plot_bandwidth\<close> computes
  for each series are its minimum, its maximum and its arithmetic mean.
\<close>

theorem plot_statistics:
  assumes "bandwidths1 \<noteq> []" and "bandwidths2 \<noteq> []"
  shows "\<exists>fig. plot_bandwidth timestamps1 bandwidths1 timestamps2 bandwidths2 = Inr fig
           \<and> min_bandwidth1 fig = Min (set bandwidths1)
           \<and> max_bandwidth1 fig = Max (set bandwidths1)
           \<and> avg_bandwidth1 fig = sum_list bandwidths1 / real (length bandwidths1)
           \<and> min_bandwidth2 fig = Min (set bandwidths2)
           \<and> max_bandwidth2 fig = Max (set bandwidths2)
           \<and> avg_bandwidth2 fig = sum_list bandwidths2 / real (length bandwidths2)"
  using plot_bandwidth_nonempty [OF assms, of timestamps1 timestamps2]
  by simp

text \<open>Two series of ten values each, with the statistics computed by hand.\<close>

theorem plot_statistics_witness:
  "\<exists>fig. plot_bandwidth [1, 2, 3, 4, 5, 6, 7, 8, 9, 10] [3, 1, 4, 1, 5, 9, 2, 6, 5, 3]
                          [1, 2, 3, 4, 5, 6, 7, 8, 9, 10] [9.5, 9.25, 9.5, 9, 8.75, 9.5, 9.75, 9.25, 9.5, 9] = Inr fig
     \<and> min_bandwidth1 fig = 1 \<and> max_bandwidth1 fig = 9 \<and> avg_bandwidth1 fig = 3.9
     \<and> min_bandwidth2 fig = 8.75 \<and> max_bandwidth2 fig = 9.75 \<and> avg_bandwidth2 fig = 9.3"
  using plot_statistics [of "[3, 1, 4, 1, 5, 9, 2, 6, 5, 3]"
      "[9.5, 9.25, 9.5, 9, 8.75, 9.5, 9.75, 9.25, 9.5, 9]"
      "[1, 2, 3, 4, 5, 6, 7, 8, 9, 10]" "[1, 2, 3, 4, 5, 6, 7, 8, 9, 10]"]
  by simp

section \<open>Properties of \<open>main\<close>\<close>

subsection \<open>Sequencing\<close>

lemma bind_ret [simp]: "bind (ret x) f = f x"
  by (simp add: bind_def ret_def)

lemma bind_raise [simp]: "bind (raise e) f = raise e"
  by (simp add: bind_def raise_def)

lemma bind_assoc: "bind (bind m f) g = bind m (\<lambda>x. bind (f x) g)"
  by (rule ext) (simp add: bind_def split: prod.splits sum.splits)

lemma bind_ret_right [simp]: "bind m ret = m"
  by (rule ext) (simp add: bind_def ret_def split: prod.splits sum.splits)

text \<open>\<open>main\<close> is the prompt, the nine steps twice, and the report.\<close>

lemma main_sessions:
  "main cfg w =
     bind (input_int w ''Enter the duration of the iperf test in seconds: '') (\<lambda>duration.
     bind (session_steps w (''Starting iperf server in namespace '' @ line146 cfg @ ''...'') ''server1''
             (''Running first iperf test in namespace '' @ line142 cfg @ '' for '' @ str duration @ '' seconds...'')
             (line146 cfg) duration (line142 cfg) ''MACsec Progress'') (\<lambda>result1.
     bind (session_steps w (''Starting iperf server in namespace '' @ line147 cfg @ ''...'') ''server2''
             (''Running second iperf test in namespace '' @ line143 cfg @ '' for '' @ str duration @ '' seconds...'')
             (line146 cfg) duration (line143 cfg) ''Plain Progress'') (\<lambda>result2.
     report result1 result2)))"
  unfolding main_def session_steps_def report_def Let_def
  by (simp add: bind_assoc split_def)

lemma main_sessions':
  "main cfg w =
     bind (input_int w ''Enter the duration of the iperf test in seconds: '') (\<lambda>duration.
     bind (session_steps w (announce (line146 cfg)) ''server1'' (running_first (line142 cfg) duration)
             (line146 cfg) duration (line142 cfg) ''MACsec Progress'') (\<lambda>result1.
     bind (session_steps w (announce (line147 cfg)) ''server2'' (running_second (line143 cfg) duration)
             (line146 cfg) duration (line143 cfg) ''Plain Progress'') (\<lambda>result2.
     report result1 result2)))"
  unfolding main_sessions announce_def running_first_def running_second_def ..

subsection \<open>What each part does to the trace\<close>

lemma emit_all_run: "emit_all es s = (Inr (), s\<lparr>trace := trace s @ es\<rparr>)"
  by (induction es arbitrary: s) (simp_all add: ret_def bind_def emit_def)

lemma sleep_each_run: "sleep_each n s = (Inr (), s\<lparr>trace := trace s @ replicate n (Sleep 1)\<rparr>)"
  by (induction n arbitrary: s) (simp_all add: ret_def bind_def emit_def replicate_app_Cons_same)

lemma call_parse_run:
  "call_parse w p s =
     (fst (parse_iperf_output (stdout_of w p)),
      s\<lparr>trace := trace s @ Read p # map Print (snd (parse_iperf_output (stdout_of w p)))\<rparr>)"
  by (simp add: call_parse_def bind_def emit_def emit_all_run lift_def)

lemma session_steps_run:
  "session_steps w announcement g running server_ip duration namespace desc s =
     (case globals w g of
        None \<Rightarrow> (Inl (NameError g), s\<lparr>trace := trace s @ [Print announcement]\<rparr>)
      | Some server \<Rightarrow>
          if \<not> spawns w (spawned s)
          then (Inl OSError, s\<lparr>trace := trace s @ [Print announcement]\<rparr>)
          else if \<not> spawns w (Suc (spawned s))
          then (Inl OSError,
                s\<lparr>trace := trace s @ [Print announcement, Popen (spawned s) (server_cmd server), Sleep 1, Print running],
                  spawned := Suc (spawned s)\<rparr>)
          else (case fst (parse_iperf_output (stdout_of w (Suc (spawned s)))) of
                  Inl e \<Rightarrow>
                    (Inl e,
                     s\<lparr>trace := trace s @ until_parsed (spawned s) announcement server running server_ip
                                         duration namespace desc
                                         (snd (parse_iperf_output (stdout_of w (Suc (spawned s))))),
                       spawned := Suc (Suc (spawned s))\<rparr>)
                | Inr result \<Rightarrow>
                    (Inr result,
                     s\<lparr>trace := trace s @ until_parsed (spawned s) announcement server running server_ip
                                         duration namespace desc
                                         (snd (parse_iperf_output (stdout_of w (Suc (spawned s)))))
                                       @ [Terminate (spawned s)],
                       spawned := Suc (Suc (spawned s))\<rparr>)))"
  unfolding session_steps_def
  by (simp add: bind_def emit_def lookup_def raise_def ret_def start_iperf_s_def run_iperf_def
      popen_def tqdm_loop_def sleep_each_run call_parse_run until_parsed_def server_cmd_def
      client_cmd_def split: option.splits sum.splits)

lemma run_eq:
  "run cfg w =
     (case entered w of
        Inl e \<Rightarrow> (Inl e, \<lparr>trace = [Prompt ''Enter the duration of the iperf test in seconds: ''], spawned = 0\<rparr>)
      | Inr d \<Rightarrow>
          (case session_steps w (announce (line146 cfg)) ''server1'' (running_first (line142 cfg) d)
                  (line146 cfg) d (line142 cfg) ''MACsec Progress''
                  \<lparr>trace = [Prompt ''Enter the duration of the iperf test in seconds: ''], spawned = 0\<rparr> of
             (Inl e, s1) \<Rightarrow> (Inl e, s1)
           | (Inr result1, s1) \<Rightarrow>
               (case session_steps w (announce (line147 cfg)) ''server2'' (running_second (line143 cfg) d)
                       (line146 cfg) d (line143 cfg) ''Plain Progress'' s1 of
                  (Inl e, s2) \<Rightarrow> (Inl e, s2)
                | (Inr result2, s2) \<Rightarrow> report result1 result2 s2)))"
  by (simp add: run_def main_sessions' bind_def input_int_def emit_def raise_def ret_def
      split: sum.splits)

lemma draw_run:
  "draw fig s =
     (if length (fst (series1 fig)) \<noteq> length (snd (series1 fig)) then (Inl ValueError, s)
      else if length (fst (series2 fig)) \<noteq> length (snd (series2 fig)) then (Inl ValueError, s)
      else if ylim_high fig \<le> 0 then (Inl ValueError, s)
      else (Inr (), s\<lparr>trace := trace s @ [Show fig]\<rparr>))"
  by (simp add: draw_def raise_def emit_def)

lemma report_run:
  "report (ts1, bs1) (ts2, bs2) s =
     (if ts1 \<noteq> [] \<and> bs1 \<noteq> [] \<and> ts2 \<noteq> [] \<and> bs2 \<noteq> []
      then (case plot_bandwidth ts1 bs1 ts2 bs2 of
              Inl e \<Rightarrow> (Inl e, s\<lparr>trace := trace s @ [Plot (ts1, bs1) (ts2, bs2)]\<rparr>)
            | Inr fig \<Rightarrow> draw fig (s\<lparr>trace := trace s @ [Plot (ts1, bs1) (ts2, bs2)]\<rparr>))
      else (Inr (), s\<lparr>trace := trace s @ [Print ''No data received. Check if the iperf server is running properly.'']\<rparr>))"
  by (simp add: report_def call_plot_def bind_def lift_def emit_def split: sum.splits)

text \<open>
  Every run of \<open>main\<close> is one of twelve: it stops at the prompt, at one of four
  places in the first measurement, at one of four places in the second, or it ends with
  the figure, with an exception of the drawing, or with the message that no data was
  received.
\<close>

lemma run_cases [consumes 1, case_names no_duration macsec_unbound macsec_no_server macsec_no_client
    macsec_parse_raised plain_unbound plain_no_server plain_no_client plain_parse_raised plotted
    drawing_raised no_data]:
  assumes "run cfg w = (r, s)"
  obtains
    (no_duration) e where "entered w = Inl e" "r = Inl e"
      "trace s = [Prompt ''Enter the duration of the iperf test in seconds: '']"
  | (macsec_unbound) d where "entered w = Inr d" "globals w ''server1'' = None"
      "r = Inl (NameError ''server1'')"
      "trace s = [Prompt ''Enter the duration of the iperf test in seconds: '', Print (announce (line146 cfg))]"
  | (macsec_no_server) d where "entered w = Inr d" "\<not> spawns w 0" "r = Inl OSError"
      "trace s = [Prompt ''Enter the duration of the iperf test in seconds: '', Print (announce (line146 cfg))]"
  | (macsec_no_client) d where "entered w = Inr d" "\<not> spawns w 1" "r = Inl OSError"
      "trace s = [Prompt ''Enter the duration of the iperf test in seconds: '', Print (announce (line146 cfg)),
                  Popen 0 (server_cmd (the (globals w ''server1''))), Sleep 1,
                  Print (running_first (line142 cfg) d)]"
  | (macsec_parse_raised) d e where "entered w = Inr d"
      "fst (parse_iperf_output (stdout_of w 1)) = Inl e" "r = Inl e"
      "trace s = Prompt ''Enter the duration of the iperf test in seconds: '' # macsec_events cfg w d"
  | (plain_unbound) d result1 where "entered w = Inr d"
      "fst (parse_iperf_output (stdout_of w 1)) = Inr result1"
      "globals w ''server2'' = None" "r = Inl (NameError ''server2'')"
      "trace s = Prompt ''Enter the duration of the iperf test in seconds: '' # macsec_events cfg w d
                 @ [Terminate 0, Print (announce (line147 cfg))]"
  | (plain_no_server) d result1 where "entered w = Inr d"
      "fst (parse_iperf_output (stdout_of w 1)) = Inr result1"
      "\<not> spawns w 2" "r = Inl OSError"
      "trace s = Prompt ''Enter the duration of the iperf test in seconds: '' # macsec_events cfg w d
                 @ [Terminate 0, Print (announce (line147 cfg))]"
  | (plain_no_client) d result1 where "entered w = Inr d"
      "fst (parse_iperf_output (stdout_of w 1)) = Inr result1"
      "\<not> spawns w 3" "r = Inl OSError"
      "trace s = Prompt ''Enter the duration of the iperf test in seconds: '' # macsec_events cfg w d
                 @ [Terminate 0, Print (announce (line147 cfg)),
                    Popen 2 (server_cmd (the (globals w ''server2''))), Sleep 1,
                    Print (running_second (line143 cfg) d)]"
  | (plain_parse_raised) d result1 e where "entered w = Inr d"
      "fst (parse_iperf_output (stdout_of w 1)) = Inr result1"
      "fst (parse_iperf_output (stdout_of w 3)) = Inl e" "r = Inl e"
      "trace s = Prompt ''Enter the duration of the iperf test in seconds: '' # macsec_events cfg w d
                 @ Terminate 0 # plain_events cfg w d"
  | (plotted) d ts1 bs1 ts2 bs2 fig where "entered w = Inr d"
      "fst (parse_iperf_output (stdout_of w 1)) = Inr (ts1, bs1)"
      "fst (parse_iperf_output (stdout_of w 3)) = Inr (ts2, bs2)"
      "ts1 \<noteq> []" "bs1 \<noteq> []" "ts2 \<noteq> []" "bs2 \<noteq> []"
      "plot_bandwidth ts1 bs1 ts2 bs2 = Inr fig" "0 < ylim_high fig" "r = Inr ()"
      "trace s = Prompt ''Enter the duration of the iperf test in seconds: '' # macsec_events cfg w d
                 @ Terminate 0 # plain_events cfg w d
                 @ [Terminate 2, Plot (ts1, bs1) (ts2, bs2), Show fig]"
  | (drawing_raised) d ts1 bs1 ts2 bs2 fig where "entered w = Inr d"
      "fst (parse_iperf_output (stdout_of w 1)) = Inr (ts1, bs1)"
      "fst (parse_iperf_output (stdout_of w 3)) = Inr (ts2, bs2)"
      "ts1 \<noteq> []" "bs1 \<noteq> []" "ts2 \<noteq> []" "bs2 \<noteq> []"
      "plot_bandwidth ts1 bs1 ts2 bs2 = Inr fig" "ylim_high fig \<le> 0" "r = Inl ValueError"
      "trace s = Prompt ''Enter the duration of the iperf test in seconds: '' # macsec_events cfg w d
                 @ Terminate 0 # plain_events cfg w d
                 @ [Terminate 2, Plot (ts1, bs1) (ts2, bs2)]"
  | (no_data) d ts1 bs1 ts2 bs2 where "entered w = Inr d"
      "fst (parse_iperf_output (stdout_of w 1)) = Inr (ts1, bs1)"
      "fst (parse_iperf_output (stdout_of w 3)) = Inr (ts2, bs2)"
      "ts1 = [] \<or> bs1 = [] \<or> ts2 = [] \<or> bs2 = []" "r = Inr ()"
      "trace s = Prompt ''Enter the duration of the iperf test in seconds: '' # macsec_events cfg w d
                 @ Terminate 0 # plain_events cfg w d
                 @ [Terminate 2, Print ''No data received. Check if the iperf server is running properly.'']"
proof (cases "entered w")
  case (Inl e)
  with assms show ?thesis
    by (intro no_duration) (auto simp: run_eq)
next
  case given: (Inr d)
  define p where "p = ''Enter the duration of the iperf test in seconds: ''"
  define s0 where "s0 = \<lparr>trace = [Prompt p], spawned = 0\<rparr>"
  define s1 where "s1 = \<lparr>trace = Prompt p # macsec_events cfg w d @ [Terminate 0], spawned = 2\<rparr>"
  define first where "first = session_steps w (announce (line146 cfg)) ''server1''
      (running_first (line142 cfg) d) (line146 cfg) d (line142 cfg) ''MACsec Progress'' s0"
  define second where "second = session_steps w (announce (line147 cfg)) ''server2''
      (running_second (line143 cfg) d) (line146 cfg) d (line143 cfg) ''Plain Progress'' s1"
  have run1: "run cfg w = (case first of (Inl e, s1) \<Rightarrow> (Inl e, s1)
       | (Inr result1, s1) \<Rightarrow>
           (case session_steps w (announce (line147 cfg)) ''server2''
                   (running_second (line143 cfg) d) (line146 cfg) d (line143 cfg) ''Plain Progress'' s1 of
              (Inl e, s2) \<Rightarrow> (Inl e, s2)
            | (Inr result2, s2) \<Rightarrow> report result1 result2 s2))"
    unfolding first_def s0_def p_def by (simp only: run_eq given sum.case)
  have first_eq: "first =
     (case globals w ''server1'' of
        None \<Rightarrow> (Inl (NameError ''server1''), \<lparr>trace = [Prompt p, Print (announce (line146 cfg))], spawned = 0\<rparr>)
      | Some server \<Rightarrow>
          if \<not> spawns w 0
          then (Inl OSError, \<lparr>trace = [Prompt p, Print (announce (line146 cfg))], spawned = 0\<rparr>)
          else if \<not> spawns w 1
          then (Inl OSError,
                \<lparr>trace = [Prompt p, Print (announce (line146 cfg)), Popen 0 (server_cmd server), Sleep 1,
                          Print (running_first (line142 cfg) d)],
                  spawned = 1\<rparr>)
          else (case fst (parse_iperf_output (stdout_of w 1)) of
                  Inl e \<Rightarrow> (Inl e, \<lparr>trace = Prompt p # macsec_events cfg w d, spawned = 2\<rparr>)
                | Inr result \<Rightarrow> (Inr result, s1)))"
    unfolding first_def s0_def s1_def macsec_events_def
    by (simp add: session_steps_run split: option.splits sum.splits)
  have second_eq: "second =
     (case globals w ''server2'' of
        None \<Rightarrow> (Inl (NameError ''server2''),
                 \<lparr>trace = Prompt p # macsec_events cfg w d @ [Terminate 0, Print (announce (line147 cfg))],
                   spawned = 2\<rparr>)
      | Some server \<Rightarrow>
          if \<not> spawns w 2
          then (Inl OSError,
                 \<lparr>trace = Prompt p # macsec_events cfg w d @ [Terminate 0, Print (announce (line147 cfg))],
                   spawned = 2\<rparr>)
          else if \<not> spawns w 3
          then (Inl OSError,
                \<lparr>trace = Prompt p # macsec_events cfg w d @
                          [Terminate 0, Print (announce (line147 cfg)), Popen 2 (server_cmd server), Sleep 1,
                           Print (running_second (line143 cfg) d)],
                  spawned = 3\<rparr>)
          else (case fst (parse_iperf_output (stdout_of w 3)) of
                  Inl e \<Rightarrow> (Inl e, \<lparr>trace = Prompt p # macsec_events cfg w d @ Terminate 0 # plain_events cfg w d,
                                     spawned = 4\<rparr>)
                | Inr result \<Rightarrow>
                    (Inr result,
                     \<lparr>trace = Prompt p # macsec_events cfg w d @ Terminate 0 # plain_events cfg w d @ [Terminate 2],
                       spawned = 4\<rparr>)))"
    unfolding second_def s1_def plain_events_def
    by (simp add: session_steps_run eval_nat_numeral split: option.splits sum.splits)
  have run2: "run cfg w =
      (case second of (Inl e, s2) \<Rightarrow> (Inl e, s2) | (Inr result2, s2) \<Rightarrow> report result1 result2 s2)"
    if "first = (Inr result1, s1)" for result1
    using that by (simp add: run1 second_def)
  show ?thesis
  proof (cases "globals w ''server1''")
    case None
    then have "run cfg w =
        (Inl (NameError ''server1''), \<lparr>trace = [Prompt p, Print (announce (line146 cfg))], spawned = 0\<rparr>)"
      by (simp add: run1 first_eq)
    with assms have "r = Inl (NameError ''server1'')" "trace s = [Prompt p, Print (announce (line146 cfg))]"
      by auto
    then show ?thesis
      unfolding p_def by (rule macsec_unbound [OF given None])
  next
    case bound1: (Some server1)
    show ?thesis
    proof (cases "spawns w 0")
      case False
      then have "run cfg w =
          (Inl OSError, \<lparr>trace = [Prompt p, Print (announce (line146 cfg))], spawned = 0\<rparr>)"
        using bound1 by (simp add: run1 first_eq)
      with assms have "r = Inl OSError" "trace s = [Prompt p, Print (announce (line146 cfg))]"
        by auto
      then show ?thesis
        unfolding p_def by (rule macsec_no_server [OF given False])
    next
      case server_up1: True
      show ?thesis
      proof (cases "spawns w 1")
        case False
        then have "run cfg w =
            (Inl OSError,
             \<lparr>trace = [Prompt p, Print (announce (line146 cfg)), Popen 0 (server_cmd server1), Sleep 1,
                       Print (running_first (line142 cfg) d)],
               spawned = 1\<rparr>)"
          using bound1 server_up1 by (simp add: run1 first_eq)
        with assms bound1 have "r = Inl OSError"
          "trace s = [Prompt p, Print (announce (line146 cfg)),
                      Popen 0 (server_cmd (the (globals w ''server1''))), Sleep 1,
                      Print (running_first (line142 cfg) d)]"
          by auto
        then show ?thesis
          unfolding p_def by (rule macsec_no_client [OF given False])
      next
        case client_up1: True
        show ?thesis
        proof (cases "fst (parse_iperf_output (stdout_of w 1))")
          case (Inl e)
          then have "run cfg w = (Inl e, \<lparr>trace = Prompt p # macsec_events cfg w d, spawned = 2\<rparr>)"
            using bound1 server_up1 client_up1 by (simp add: run1 first_eq)
          with assms have "r = Inl e" "trace s = Prompt p # macsec_events cfg w d"
            by auto
          then show ?thesis
            unfolding p_def by (rule macsec_parse_raised [OF given Inl])
        next
          case parsed1: (Inr result1)
          then have "first = (Inr result1, s1)"
            using bound1 server_up1 client_up1 by (simp add: first_eq)
          note run3 = run2 [OF this]
          show ?thesis
          proof (cases "globals w ''server2''")
            case None
            then have "run cfg w =
                (Inl (NameError ''server2''),
                 \<lparr>trace = Prompt p # macsec_events cfg w d @ [Terminate 0, Print (announce (line147 cfg))],
                   spawned = 2\<rparr>)"
              by (simp add: run3 second_eq)
            with assms have "r = Inl (NameError ''server2'')"
              "trace s = Prompt p # macsec_events cfg w d @ [Terminate 0, Print (announce (line147 cfg))]"
              by auto
            then show ?thesis
              unfolding p_def by (rule plain_unbound [OF given parsed1 None])
          next
            case bound2: (Some server2)
            show ?thesis
            proof (cases "spawns w 2")
              case False
              then have "run cfg w =
                  (Inl OSError,
                   \<lparr>trace = Prompt p # macsec_events cfg w d @ [Terminate 0, Print (announce (line147 cfg))],
                     spawned = 2\<rparr>)"
                using bound2 by (simp add: run3 second_eq)
              with assms have "r = Inl OSError"
                "trace s = Prompt p # macsec_events cfg w d @ [Terminate 0, Print (announce (line147 cfg))]"
                by auto
              then show ?thesis
                unfolding p_def by (rule plain_no_server [OF given parsed1 False])
            next
              case server_up2: True
              show ?thesis
              proof (cases "spawns w 3")
                case False
                then have "run cfg w =
                    (Inl OSError,
                     \<lparr>trace = Prompt p # macsec_events cfg w d @
                               [Terminate 0, Print (announce (line147 cfg)), Popen 2 (server_cmd server2),
                                Sleep 1, Print (running_second (line143 cfg) d)],
                       spawned = 3\<rparr>)"
                  using bound2 server_up2 by (simp add: run3 second_eq)
                with assms bound2 have "r = Inl OSError"
                  "trace s = Prompt p # macsec_events cfg w d @
                             [Terminate 0, Print (announce (line147 cfg)),
                              Popen 2 (server_cmd (the (globals w ''server2''))), Sleep 1,
                              Print (running_second (line143 cfg) d)]"
                  by auto
                then show ?thesis
                  unfolding p_def by (rule plain_no_client [OF given parsed1 False])
              next
                case client_up2: True
                show ?thesis
                proof (cases "fst (parse_iperf_output (stdout_of w 3))")
                  case (Inl e)
                  then have "run cfg w =
                      (Inl e, \<lparr>trace = Prompt p # macsec_events cfg w d @ Terminate 0 # plain_events cfg w d,
                                spawned = 4\<rparr>)"
                    using bound2 server_up2 client_up2 by (simp add: run3 second_eq)
                  with assms have "r = Inl e"
                    "trace s = Prompt p # macsec_events cfg w d @ Terminate 0 # plain_events cfg w d"
                    by auto
                  then show ?thesis
                    unfolding p_def by (rule plain_parse_raised [OF given parsed1 Inl])
                next
                  case parsed2: (Inr result2)
                  obtain ts1 bs1 where r1: "result1 = (ts1, bs1)" by (cases result1)
                  obtain ts2 bs2 where r2: "result2 = (ts2, bs2)" by (cases result2)
                  define s2 where "s2 =
                     \<lparr>trace = Prompt p # macsec_events cfg w d @ Terminate 0 # plain_events cfg w d @ [Terminate 2],
                       spawned = 4\<rparr>"
                  from parsed2 have run4: "run cfg w = report (ts1, bs1) (ts2, bs2) s2"
                    using bound2 server_up2 client_up2 by (simp add: run3 second_eq r1 r2 s2_def)
                  show ?thesis
                  proof (cases "ts1 \<noteq> [] \<and> bs1 \<noteq> [] \<and> ts2 \<noteq> [] \<and> bs2 \<noteq> []")
                    case samples: True
                    then obtain fig where fig: "plot_bandwidth ts1 bs1 ts2 bs2 = Inr fig"
                      and series: "series1 fig = (ts1, bs1)" "series2 fig = (ts2, bs2)"
                      using plot_bandwidth_nonempty [of bs1 bs2 ts1 ts2] by simp
                    from parsed1 parsed2 have len: "length ts1 = length bs1" "length ts2 = length bs2"
                      by (auto simp: r1 r2 dest: parse_same_length)
                    have run5: "run cfg w =
                        draw fig (s2\<lparr>trace := trace s2 @ [Plot (ts1, bs1) (ts2, bs2)]\<rparr>)"
                      using samples fig by (simp add: run4 report_run)
                    show ?thesis
                    proof (cases "0 < ylim_high fig")
                      case True
                      with series len have "run cfg w =
                          (Inr (), s2\<lparr>trace := trace s2 @ [Plot (ts1, bs1) (ts2, bs2), Show fig]\<rparr>)"
                        by (simp add: run5 draw_run)
                      with assms have "r = Inr ()"
                        "trace s = Prompt p # macsec_events cfg w d @ Terminate 0 # plain_events cfg w d
                                   @ [Terminate 2, Plot (ts1, bs1) (ts2, bs2), Show fig]"
                        by (auto simp: s2_def)
                      with samples fig True show ?thesis
                        unfolding p_def
                        by (intro plotted [OF given parsed1 [unfolded r1] parsed2 [unfolded r2]]) simp_all
                    next
                      case False
                      with series len have "run cfg w =
                          (Inl ValueError, s2\<lparr>trace := trace s2 @ [Plot (ts1, bs1) (ts2, bs2)]\<rparr>)"
                        by (simp add: run5 draw_run)
                      with assms have "r = Inl ValueError"
                        "trace s = Prompt p # macsec_events cfg w d @ Terminate 0 # plain_events cfg w d
                                   @ [Terminate 2, Plot (ts1, bs1) (ts2, bs2)]"
                        by (auto simp: s2_def)
                      moreover from False have "ylim_high fig \<le> 0" by (simp add: not_less)
                      ultimately show ?thesis
                        using samples fig
                        unfolding p_def
                        by (intro drawing_raised [OF given parsed1 [unfolded r1] parsed2 [unfolded r2]])
                           simp_all
                    qed
                  next
                    case False
                    then have "run cfg w =
                        (Inr (), s2\<lparr>trace := trace s2 @
                           [Print ''No data received. Check if the iperf server is running properly.'']\<rparr>)"
                      by (simp only: run4 report_run if_False)
                    with assms have "r = Inr ()"
                      "trace s = Prompt p # macsec_events cfg w d @ Terminate 0 # plain_events cfg w d
                                 @ [Terminate 2,
                                    Print ''No data received. Check if the iperf server is running properly.'']"
                      by (auto simp: s2_def)
                    with False show ?thesis
                      unfolding p_def
                      by (intro no_data [OF given parsed1 [unfolded r1] parsed2 [unfolded r2]]) simp_all
                  qed
                qed
              qed
            qed
          qed
        qed
      qed
    qed
  qed
qed

subsection \<open>The events of one measurement\<close>

lemma printed_not_no_data:
  "''No data received. Check if the iperf server is running properly.'' \<notin> set (snd (parse_iperf_output c))"
  by (cases c) auto

lemma until_parsed_set:
  "set (until_parsed k a srv b ip d ns desc out) =
     {Print a, Popen k (server_cmd srv), Print b, Popen (Suc k) (client_cmd ip d ns), Progress desc,
      Sleep 1, Read (Suc k)} \<union> Print ` set out"
  by (auto simp: until_parsed_def)

lemma server_cmd_not_client_cmd: "server_cmd ns \<noteq> client_cmd ip d ns'"
  by (simp add: server_cmd_def client_cmd_def)

lemma macsec_no_terminate: "Terminate h \<notin> set (macsec_events cfg w d)"
  by (auto simp: macsec_events_def until_parsed_set)

lemma plain_no_terminate: "Terminate h \<notin> set (plain_events cfg w d)"
  by (auto simp: plain_events_def until_parsed_set)

lemma macsec_read: "Read h \<in> set (macsec_events cfg w d) \<longleftrightarrow> h = 1"
  by (auto simp: macsec_events_def until_parsed_set)

lemma plain_read: "Read h \<in> set (plain_events cfg w d) \<longleftrightarrow> h = 3"
  by (auto simp: plain_events_def until_parsed_set eval_nat_numeral)

lemma macsec_popen:
  "Popen h cmd \<in> set (macsec_events cfg w d) \<longleftrightarrow>
     h = 0 \<and> cmd = server_cmd (the (globals w ''server1''))
     \<or> h = 1 \<and> cmd = client_cmd (line146 cfg) d (line142 cfg)"
  by (auto simp: macsec_events_def until_parsed_set)

lemma plain_popen:
  "Popen h cmd \<in> set (plain_events cfg w d) \<longleftrightarrow>
     h = 2 \<and> cmd = server_cmd (the (globals w ''server2''))
     \<or> h = 3 \<and> cmd = client_cmd (line146 cfg) d (line143 cfg)"
  by (auto simp: plain_events_def until_parsed_set eval_nat_numeral)

lemma macsec_no_plot: "filter is_plot (macsec_events cfg w d) = []"
  by (auto simp: filter_empty_conv macsec_events_def until_parsed_set)

lemma plain_no_plot: "filter is_plot (plain_events cfg w d) = []"
  by (auto simp: filter_empty_conv plain_events_def until_parsed_set)

lemma macsec_no_show: "filter is_show (macsec_events cfg w d) = []"
  by (auto simp: filter_empty_conv macsec_events_def until_parsed_set)

lemma plain_no_show: "filter is_show (plain_events cfg w d) = []"
  by (auto simp: filter_empty_conv plain_events_def until_parsed_set)

lemma macsec_no_message:
  "Print ''No data received. Check if the iperf server is running properly.'' \<notin> set (macsec_events cfg w d)"
  using printed_not_no_data [of "stdout_of w 1"]
  by (auto simp: macsec_events_def until_parsed_set announce_def running_first_def)

lemma plain_no_message:
  "Print ''No data received. Check if the iperf server is running properly.'' \<notin> set (plain_events cfg w d)"
  using printed_not_no_data [of "stdout_of w 3"]
  by (auto simp: plain_events_def until_parsed_set announce_def running_second_def)

lemma macsec_no_plain: "x \<in> set (macsec_events cfg w d) \<Longrightarrow> \<not> plain_step x"
  by (auto simp: macsec_events_def until_parsed_set plain_step_def)

lemma plain_no_encrypted: "x \<in> set (plain_events cfg w d) \<Longrightarrow> \<not> encrypted_step x"
  by (auto simp: plain_events_def until_parsed_set encrypted_step_def)

lemma macsec_in_order:
  "subseq [Popen 0 (server_cmd (the (globals w ''server1''))), Sleep 1,
           Popen 1 (client_cmd (line146 cfg) d (line142 cfg)), Read 1, Terminate 0]
          (Prompt p # macsec_events cfg w d @ [Terminate 0])"
proof -
  have "subseq [Read 1, Terminate 0]
          (replicate (nat d) (Sleep 1) @ [Read (Suc 0)] @
           map Print (snd (parse_iperf_output (stdout_of w 1))) @ [Terminate 0])"
    by (rule list_emb_append2) (simp add: list_emb_append2)
  then show ?thesis
    by (simp add: macsec_events_def until_parsed_def)
qed

subsection \<open>Concrete runs\<close>

lemma two_reports_parsed:
  "parse_iperf_output (two_reports h) =
     (if h = 1 then (Inr ([1, 2], [9.4, 9.1]), []) else (Inr ([1, 2], [9.5, 9.3]), []))"
  by (simp add: two_reports_def iperf_report_def parse_document_def interval_sample_def)

lemma patched_run:
  "run filled_in (patched 2 two_reports) =
     (Inr (),
      \<lparr>trace =
         [Prompt ''Enter the duration of the iperf test in seconds: '',
          Print (announce ''ns2''), Popen 0 (server_cmd ''g1''), Sleep 1,
          Print (running_first ''ns1'' 2), Popen 1 (client_cmd ''ns2'' 2 ''ns1''),
          Progress ''MACsec Progress'', Sleep 1, Sleep 1, Read 1, Terminate 0,
          Print (announce ''ns4''), Popen 2 (server_cmd ''g2''), Sleep 1,
          Print (running_second ''ns3'' 2), Popen 3 (client_cmd ''ns2'' 2 ''ns3''),
          Progress ''Plain Progress'', Sleep 1, Sleep 1, Read 3, Terminate 2,
          Plot ([1, 2], [9.4, 9.1]) ([1, 2], [9.5, 9.3]),
          Show (projr (plot_bandwidth [1, 2] [9.4, 9.1] [1, 2] [9.5, 9.3]))],
        spawned = 4\<rparr>)"
  by (simp add: run_eq session_steps_run report_run draw_run until_parsed_def patched_def
      filled_in_def two_reports_parsed plot_bandwidth_nonempty eval_nat_numeral)

lemma idle_reports_parsed:
  "parse_iperf_output (idle_reports h) = (Inr ([1, 2], [0, 0]), [])"
  by (simp add: idle_reports_def iperf_report_def parse_document_def interval_sample_def)

lemma idle_run:
  "run filled_in (patched 1 idle_reports) =
     (Inl ValueError,
      \<lparr>trace =
         [Prompt ''Enter the duration of the iperf test in seconds: '',
          Print (announce ''ns2''), Popen 0 (server_cmd ''g1''), Sleep 1,
          Print (running_first ''ns1'' 1), Popen 1 (client_cmd ''ns2'' 1 ''ns1''),
          Progress ''MACsec Progress'', Sleep 1, Read 1, Terminate 0,
          Print (announce ''ns4''), Popen 2 (server_cmd ''g2''), Sleep 1,
          Print (running_second ''ns3'' 1), Popen 3 (client_cmd ''ns2'' 1 ''ns3''),
          Progress ''Plain Progress'', Sleep 1, Read 3, Terminate 2,
          Plot ([1, 2], [0, 0]) ([1, 2], [0, 0])],
        spawned = 4\<rparr>)"
  by (simp add: run_eq session_steps_run report_run draw_run until_parsed_def patched_def
      filled_in_def idle_reports_parsed plot_bandwidth_nonempty eval_nat_numeral)

lemma patched_run_bad:
  "run filled_in (patched 2 (\<lambda>h. Document (JArray []))) =
     (Inl AttributeError,
      \<lparr>trace =
         [Prompt ''Enter the duration of the iperf test in seconds: '',
          Print (announce ''ns2''), Popen 0 (server_cmd ''g1''), Sleep 1,
          Print (running_first ''ns1'' 2), Popen 1 (client_cmd ''ns2'' 2 ''ns1''),
          Progress ''MACsec Progress'', Sleep 1, Sleep 1, Read 1],
        spawned = 2\<rparr>)"
  by (simp add: run_eq session_steps_run until_parsed_def patched_def filled_in_def
      parse_document_def eval_nat_numeral)

lemma untouched_run:
  "run as_shipped (untouched 10 two_reports) =
     (Inl (NameError ''server1''),
      \<lparr>trace = [Prompt ''Enter the duration of the iperf test in seconds: '',
                Print ''Starting iperf server in namespace ...''],
        spawned = 0\<rparr>)"
  by (simp add: run_eq session_steps_run untouched_def as_shipped_def announce_def)

lemma empty_run:
  "run filled_in (patched 1 (\<lambda>h. NotJSON ''Expecting value'')) =
     (Inr (),
      \<lparr>trace =
         [Prompt ''Enter the duration of the iperf test in seconds: '',
          Print (announce ''ns2''), Popen 0 (server_cmd ''g1''), Sleep 1,
          Print (running_first ''ns1'' 1), Popen 1 (client_cmd ''ns2'' 1 ''ns1''),
          Progress ''MACsec Progress'', Sleep 1, Read 1, Print ''Error parsing JSON: Expecting value'',
          Terminate 0,
          Print (announce ''ns4''), Popen 2 (server_cmd ''g2''), Sleep 1,
          Print (running_second ''ns3'' 1), Popen 3 (client_cmd ''ns2'' 1 ''ns3''),
          Progress ''Plain Progress'', Sleep 1, Read 3, Print ''Error parsing JSON: Expecting value'',
          Terminate 2,
          Print ''No data received. Check if the iperf server is running properly.''],
        spawned = 4\<rparr>)"
  by (simp add: run_eq session_steps_run report_run until_parsed_def patched_def filled_in_def
      eval_nat_numeral)

lemma patched_fields:
  "globals (patched d out) = map_of [(''server1'', ''g1''), (''server2'', ''g2'')]"
  "entered (patched d out) = Inr d"
  "stdout_of (patched d out) = out"
  by (simp_all add: patched_def)

lemma filled_in_fields:
  "line137 filled_in = ''10.0.0.2''" "line138 filled_in = ''10.0.1.2''"
  "line142 filled_in = ''ns1''" "line143 filled_in = ''ns3''"
  "line146 filled_in = ''ns2''" "line147 filled_in = ''ns4''"
  by (simp_all add: filled_in_def)

subsection \<open>Which names reach the commands\<close>

text \<open>
  In every run the server commands take their namespace from the globals \<open>server1\<close> and
  \<open>server2\<close>, and both client commands take their target from the literal of line 146:
  the literals of lines 137 and 138 reach no command.
\<close>

lemma commands_of_run:
  assumes "run cfg w = (r, s)" and "Popen h cmd \<in> set (trace s)"
  shows "h = 0 \<and> cmd = server_cmd (the (globals w ''server1''))
       \<or> h = 1 \<and> cmd = client_cmd (line146 cfg) (projr (entered w)) (line142 cfg)
       \<or> h = 2 \<and> cmd = server_cmd (the (globals w ''server2''))
       \<or> h = 3 \<and> cmd = client_cmd (line146 cfg) (projr (entered w)) (line143 cfg)"
  using assms
  by (cases rule: run_cases) (auto simp: macsec_popen plain_popen)

text \<open>
  Claim C5: the identifiers read when the servers are started and the clients are run
  are the ones assigned, one per role, and the plain client is given the plain address.
  The code does otherwise. In the file as it is (\<open>untouched\<close>), an operator who enters 10
  sees the first announcement and then \<open>NameError\<close>: line 150 reads \<open>server1\<close>, which is
  assigned nowhere. With \<open>server1\<close> and \<open>server2\<close> bound by a caller (\<open>patched\<close>), the
  server announced in namespace \<open>ns2\<close> (line 146) is started in \<open>g1\<close>, and the plain client
  (process 3) is run against \<open>ns2\<close>, the value of \<open>server_macsec\<close> after line 146, and not
  against the plain address of line 138.
\<close>

theorem main_reads_names_it_never_assigns:
  "run as_shipped (untouched 10 two_reports) =
     (Inl (NameError ''server1''),
      \<lparr>trace = [Prompt ''Enter the duration of the iperf test in seconds: '',
                Print ''Starting iperf server in namespace ...''],
        spawned = 0\<rparr>)
   \<and> Print ''Starting iperf server in namespace ns2...'' \<in> set (trace (snd (run filled_in (patched 2 two_reports))))
   \<and> Popen 0 [''ip'', ''netns'', ''exec'', ''g1'', ''iperf3'', ''-s'']
        \<in> set (trace (snd (run filled_in (patched 2 two_reports))))
   \<and> Popen 3 [''ip'', ''netns'', ''exec'', ''ns3'', ''iperf3'', ''-c'', ''ns2'', ''-t'', ''2'', ''-i'', ''1'', ''--json'']
        \<in> set (trace (snd (run filled_in (patched 2 two_reports))))
   \<and> line138 filled_in = ''10.0.1.2''"
  by (simp add: untouched_run patched_run announce_def server_cmd_def client_cmd_def str_def
      digit_char_def filled_in_fields)

subsection \<open>Termination of the servers\<close>

text \<open>
  Claim C3, as stated: in every run each server is signalled to terminate exactly once,
  whatever parsing does. It fails when \<open>parse_iperf_output\<close> raises: with the client's
  output \<open>[]\<close>, the server of the first measurement has been started and line 160 is
  never reached. (In the file as it is, the run stops at line 150 and no server is
  signalled either.)
\<close>

theorem server_not_signalled_when_parse_raises:
  "fst (run filled_in (patched 2 (\<lambda>h. Document (JArray [])))) = Inl AttributeError
   \<and> Popen 0 (server_cmd ''g1'') \<in> set (trace (snd (run filled_in (patched 2 (\<lambda>h. Document (JArray []))))))
   \<and> count_list (trace (snd (run filled_in (patched 2 (\<lambda>h. Document (JArray [])))))) (Terminate 0) = 0
   \<and> fst (run as_shipped (untouched 10 two_reports)) = Inl (NameError ''server1'')
   \<and> count_list (trace (snd (run as_shipped (untouched 10 two_reports)))) (Terminate 0) = 0"
  by (simp add: patched_run_bad untouched_run)

text \<open>
  Claim C3, amended: in every run a server is signalled to terminate at most once, and
  the server of a measurement (process 0, process 2) is signalled exactly once when the
  run reaches \<open>parse_iperf_output\<close> for that measurement and the parser returns, with
  samples, without samples, or with two empty lists after a decode failure. When the
  parser raises, or the run stops before, that server is not signalled. The processes
  started with a server command are exactly processes 0 and 2.
\<close>

theorem terminate_once_when_parse_returns:
  assumes "run cfg w = (r, s)"
  shows "count_list (trace s) (Terminate 0) =
           (if Read 1 \<in> set (trace s) \<and> \<not> isl (fst (parse_iperf_output (stdout_of w 1))) then 1 else 0)
       \<and> count_list (trace s) (Terminate 2) =
           (if Read 3 \<in> set (trace s) \<and> \<not> isl (fst (parse_iperf_output (stdout_of w 3))) then 1 else 0)
       \<and> (\<forall>h. h \<noteq> 0 \<and> h \<noteq> 2 \<longrightarrow> count_list (trace s) (Terminate h) = 0)
       \<and> (\<forall>h cmd. Popen h cmd \<in> set (trace s) \<longrightarrow> ((\<exists>ns. cmd = server_cmd ns) \<longleftrightarrow> h = 0 \<or> h = 2))"
  using assms
proof (cases rule: run_cases)
  case no_duration
  then show ?thesis by simp
next
  case (macsec_unbound d)
  then show ?thesis by simp
next
  case (macsec_no_server d)
  then show ?thesis by simp
next
  case (macsec_no_client d)
  then show ?thesis by auto
next
  case (macsec_parse_raised d e)
  then show ?thesis
    by (auto simp: macsec_no_terminate macsec_read macsec_popen server_cmd_not_client_cmd
        server_cmd_not_client_cmd [symmetric])
next
  case (plain_unbound d result1)
  then show ?thesis
    by (auto simp: macsec_no_terminate macsec_read macsec_popen server_cmd_not_client_cmd
        server_cmd_not_client_cmd [symmetric])
next
  case (plain_no_server d result1)
  then show ?thesis
    by (auto simp: macsec_no_terminate macsec_read macsec_popen server_cmd_not_client_cmd
        server_cmd_not_client_cmd [symmetric])
next
  case (plain_no_client d result1)
  then show ?thesis
    by (auto simp: macsec_no_terminate macsec_read macsec_popen server_cmd_not_client_cmd
        server_cmd_not_client_cmd [symmetric])
next
  case (plain_parse_raised d result1 e)
  then show ?thesis
    by (auto simp: macsec_no_terminate macsec_read macsec_popen plain_no_terminate plain_read
        plain_popen server_cmd_not_client_cmd server_cmd_not_client_cmd [symmetric])
next
  case (plotted d ts1 bs1 ts2 bs2 fig)
  then show ?thesis
    by (auto simp: macsec_no_terminate macsec_read macsec_popen plain_no_terminate plain_read
        plain_popen server_cmd_not_client_cmd server_cmd_not_client_cmd [symmetric])
next
  case (drawing_raised d ts1 bs1 ts2 bs2 fig)
  then show ?thesis
    by (auto simp: macsec_no_terminate macsec_read macsec_popen plain_no_terminate plain_read
        plain_popen server_cmd_not_client_cmd server_cmd_not_client_cmd [symmetric])
next
  case (no_data d ts1 bs1 ts2 bs2)
  then show ?thesis
    by (auto simp: macsec_no_terminate macsec_read macsec_popen plain_no_terminate plain_read
        plain_popen server_cmd_not_client_cmd server_cmd_not_client_cmd [symmetric])
qed

text \<open>
  Three runs: both reports hold samples; neither output is JSON; the first output is
  the JSON text \<open>[]\<close>.
\<close>

theorem terminate_once_when_parse_returns_witness:
  "count_list (trace (snd (run filled_in (patched 2 two_reports)))) (Terminate 0) = 1
   \<and> count_list (trace (snd (run filled_in (patched 2 two_reports)))) (Terminate 2) = 1
   \<and> count_list (trace (snd (run filled_in (patched 1 (\<lambda>h. NotJSON ''Expecting value''))))) (Terminate 0) = 1
   \<and> count_list (trace (snd (run filled_in (patched 1 (\<lambda>h. NotJSON ''Expecting value''))))) (Terminate 2) = 1
   \<and> count_list (trace (snd (run filled_in (patched 2 (\<lambda>h. Document (JArray [])))))) (Terminate 0) = 0"
proof -
  note good = terminate_once_when_parse_returns [OF patched_run]
  note empty = terminate_once_when_parse_returns [OF empty_run]
  note bad = terminate_once_when_parse_returns [OF patched_run_bad]
  from good [THEN conjunct1] good [THEN conjunct2, THEN conjunct1]
    empty [THEN conjunct1] empty [THEN conjunct2, THEN conjunct1] bad [THEN conjunct1]
  show ?thesis
    by (simp add: patched_run empty_run patched_run_bad patched_fields two_reports_parsed)
qed

subsection \<open>The figure, or the message\<close>

text \<open>
  Claim C4: once both measurements are complete (the second server has been signalled,
  line 173), \<open>plot_bandwidth\<close> is called exactly once, with the two series, if both
  measurements produced samples; if either produced none it is not called, nothing is
  shown, the message that no data was received is printed instead and \<open>main\<close> returns.
  The message is printed in no other case. (What the call does once it is made is the
  last line of the statement: the figure is shown and \<open>main\<close> returns when the upper
  limit of the y axis is positive, and otherwise the call raises and nothing is shown.)
\<close>

theorem plot_iff_both_series_nonempty:
  assumes "run cfg w = (r, s)"
    and "Terminate 2 \<in> set (trace s)"
  shows "\<exists>ts1 bs1 ts2 bs2.
           fst (parse_iperf_output (stdout_of w 1)) = Inr (ts1, bs1)
         \<and> fst (parse_iperf_output (stdout_of w 3)) = Inr (ts2, bs2)
         \<and> length ts1 = length bs1 \<and> length ts2 = length bs2
         \<and> filter is_plot (trace s) =
             (if bs1 \<noteq> [] \<and> bs2 \<noteq> [] then [Plot (ts1, bs1) (ts2, bs2)] else [])
         \<and> length (filter is_plot (trace s)) = (if bs1 \<noteq> [] \<and> bs2 \<noteq> [] then 1 else 0)
         \<and> (Print ''No data received. Check if the iperf server is running properly.'' \<in> set (trace s)
              \<longleftrightarrow> bs1 = [] \<or> bs2 = [])
         \<and> (bs1 = [] \<or> bs2 = [] \<longrightarrow> r = Inr () \<and> filter is_show (trace s) = [])
         \<and> (bs1 \<noteq> [] \<and> bs2 \<noteq> [] \<longrightarrow>
               (if 0 < ylim_high (projr (plot_bandwidth ts1 bs1 ts2 bs2))
                then r = Inr () \<and> filter is_show (trace s) = [Show (projr (plot_bandwidth ts1 bs1 ts2 bs2))]
                else r = Inl ValueError \<and> filter is_show (trace s) = []))"
  using assms
proof (cases rule: run_cases)
  case no_duration
  with assms(2) show ?thesis by simp
next
  case (macsec_unbound d)
  with assms(2) show ?thesis by simp
next
  case (macsec_no_server d)
  with assms(2) show ?thesis by simp
next
  case (macsec_no_client d)
  with assms(2) show ?thesis by simp
next
  case (macsec_parse_raised d e)
  with assms(2) show ?thesis by (simp add: macsec_no_terminate)
next
  case (plain_unbound d result1)
  with assms(2) show ?thesis by (simp add: macsec_no_terminate)
next
  case (plain_no_server d result1)
  with assms(2) show ?thesis by (simp add: macsec_no_terminate)
next
  case (plain_no_client d result1)
  with assms(2) show ?thesis by (simp add: macsec_no_terminate)
next
  case (plain_parse_raised d result1 e)
  with assms(2) show ?thesis by (simp add: macsec_no_terminate plain_no_terminate)
next
  case (plotted d ts1 bs1 ts2 bs2 fig)
  from plotted(2,3) have "length ts1 = length bs1" "length ts2 = length bs2"
    by (auto dest: parse_same_length)
  with plotted show ?thesis
    by (simp add: macsec_no_show plain_no_show macsec_no_plot plain_no_plot macsec_no_message
        plain_no_message announce_def)
next
  case (drawing_raised d ts1 bs1 ts2 bs2 fig)
  from drawing_raised(2,3) have "length ts1 = length bs1" "length ts2 = length bs2"
    by (auto dest: parse_same_length)
  with drawing_raised show ?thesis
    by (simp add: macsec_no_show plain_no_show macsec_no_plot plain_no_plot macsec_no_message
        plain_no_message announce_def)
next
  case (no_data d ts1 bs1 ts2 bs2)
  from no_data(2,3) have len: "length ts1 = length bs1" "length ts2 = length bs2"
    by (auto dest: parse_same_length)
  with no_data(4) have "bs1 = [] \<or> bs2 = []" by auto
  with no_data len show ?thesis
    by (auto simp: macsec_no_show plain_no_show macsec_no_plot plain_no_plot)
qed

text \<open>
  Three runs: samples in both reports (one call, the figure is shown); neither output
  is JSON (no call, the message); two reports whose values are all 0 (one call, which
  raises at line 116 before anything is shown).
\<close>

theorem plot_iff_both_series_nonempty_witness:
  "filter is_plot (trace (snd (run filled_in (patched 2 two_reports))))
     = [Plot ([1, 2], [9.4, 9.1]) ([1, 2], [9.5, 9.3])]
   \<and> length (filter is_show (trace (snd (run filled_in (patched 2 two_reports))))) = 1
   \<and> Print ''No data received. Check if the iperf server is running properly.''
        \<notin> set (trace (snd (run filled_in (patched 2 two_reports))))
   \<and> filter is_plot (trace (snd (run filled_in (patched 1 (\<lambda>h. NotJSON ''Expecting value''))))) = []
   \<and> filter is_show (trace (snd (run filled_in (patched 1 (\<lambda>h. NotJSON ''Expecting value''))))) = []
   \<and> Print ''No data received. Check if the iperf server is running properly.''
        \<in> set (trace (snd (run filled_in (patched 1 (\<lambda>h. NotJSON ''Expecting value'')))))
   \<and> filter is_plot (trace (snd (run filled_in (patched 1 idle_reports))))
        = [Plot ([1, 2], [0, 0]) ([1, 2], [0, 0])]
   \<and> filter is_show (trace (snd (run filled_in (patched 1 idle_reports)))) = []
   \<and> fst (run filled_in (patched 1 idle_reports)) = Inl ValueError"
proof -
  have a: "Terminate 2 \<in> set (trace (snd (run filled_in (patched 2 two_reports))))"
    by (simp add: patched_run)
  have b: "Terminate 2 \<in> set (trace (snd (run filled_in (patched 1 (\<lambda>h. NotJSON ''Expecting value'')))))"
    by (simp add: empty_run)
  have c: "Terminate 2 \<in> set (trace (snd (run filled_in (patched 1 idle_reports))))"
    by (simp add: idle_run)
  from plot_iff_both_series_nonempty [OF surjective_pairing a]
    plot_iff_both_series_nonempty [OF surjective_pairing b]
    plot_iff_both_series_nonempty [OF surjective_pairing c]
  show ?thesis
    by (simp add: patched_fields two_reports_parsed idle_reports_parsed patched_run empty_run idle_run)
qed

subsection \<open>One measurement after the other\<close>

lemma split_after_prefix:
  assumes "A @ B = before @ e # after" and "\<forall>x\<in>set A. \<not> P x" and "P e"
  shows "\<exists>mid. before = A @ mid \<and> B = mid @ e # after"
proof -
  from assms(1) obtain us where
    "(A = before @ us \<and> us @ B = e # after) \<or> (A @ us = before \<and> B = us @ e # after)"
    by (auto simp: append_eq_append_conv2)
  then show ?thesis
  proof
    assume h: "A = before @ us \<and> us @ B = e # after"
    show ?thesis
    proof (cases us)
      case Nil
      with h show ?thesis by auto
    next
      case (Cons u rest)
      with h have "e \<in> set A" by auto
      with assms(2,3) show ?thesis by blast
    qed
  next
    assume "A @ us = before \<and> B = us @ e # after"
    then show ?thesis by auto
  qed
qed

lemma run_two_phases:
  assumes "run cfg w = (r, s)"
  shows "(\<forall>x\<in>set (trace s). \<not> plain_step x)
       \<or> (\<exists>d B. entered w = Inr d
             \<and> trace s = (Prompt ''Enter the duration of the iperf test in seconds: '' #
                           macsec_events cfg w d @ [Terminate 0]) @ B
             \<and> (\<forall>x\<in>set B. \<not> encrypted_step x))"
  using assms
proof (cases rule: run_cases)
  case no_duration
  then show ?thesis by (simp add: plain_step_def)
next
  case (macsec_unbound d)
  then show ?thesis by (simp add: plain_step_def)
next
  case (macsec_no_server d)
  then show ?thesis by (simp add: plain_step_def)
next
  case (macsec_no_client d)
  then show ?thesis by (simp add: plain_step_def)
next
  case (macsec_parse_raised d e)
  then show ?thesis by (auto simp: plain_step_def dest: macsec_no_plain)
next
  case (plain_unbound d result1)
  then show ?thesis
    by (intro disjI2 exI [of _ d] exI [of _ "[Print (announce (line147 cfg))]"])
       (simp add: encrypted_step_def)
next
  case (plain_no_server d result1)
  then show ?thesis
    by (intro disjI2 exI [of _ d] exI [of _ "[Print (announce (line147 cfg))]"])
       (simp add: encrypted_step_def)
next
  case (plain_no_client d result1)
  then show ?thesis
    by (intro disjI2 exI [of _ d]
          exI [of _ "[Print (announce (line147 cfg)), Popen 2 (server_cmd (the (globals w ''server2''))),
                      Sleep 1, Print (running_second (line143 cfg) d)]"])
       (simp add: encrypted_step_def)
next
  case (plain_parse_raised d result1 e)
  then show ?thesis
    by (intro disjI2 exI [of _ d] exI [of _ "plain_events cfg w d"])
       (auto dest: plain_no_encrypted)
next
  case (plotted d ts1 bs1 ts2 bs2 fig)
  then show ?thesis
    by (intro disjI2 exI [of _ d]
          exI [of _ "plain_events cfg w d @ [Terminate 2, Plot (ts1, bs1) (ts2, bs2), Show fig]"])
       (auto dest: plain_no_encrypted simp: encrypted_step_def)
next
  case (drawing_raised d ts1 bs1 ts2 bs2 fig)
  then show ?thesis
    by (intro disjI2 exI [of _ d]
          exI [of _ "plain_events cfg w d @ [Terminate 2, Plot (ts1, bs1) (ts2, bs2)]"])
       (auto dest: plain_no_encrypted simp: encrypted_step_def)
next
  case (no_data d ts1 bs1 ts2 bs2)
  then show ?thesis
    by (intro disjI2 exI [of _ d]
          exI [of _ "plain_events cfg w d @ [Terminate 2,
                      Print ''No data received. Check if the iperf server is running properly.'']"])
       (auto dest: plain_no_encrypted simp: encrypted_step_def)
qed

text \<open>
  Claim C9: the MACsec measurement is complete before any step of the plain one, and
  the two never overlap. At every step on a process of the plain measurement, the trace
  before it holds, in this order, the start of the first server, the warm-up, the start
  of the first client, the reading of its output to the end and the signal to the first
  server; and from that step on no event is about a process of the MACsec measurement.
\<close>

theorem plain_session_after_macsec_session:
  assumes "run cfg w = (r, s)"
    and "trace s = before @ e # after"
    and "plain_step e"
  shows "subseq [Popen 0 (server_cmd (the (globals w ''server1''))), Sleep 1,
                 Popen 1 (client_cmd (line146 cfg) (projr (entered w)) (line142 cfg)), Read 1, Terminate 0]
                before
         \<and> (\<forall>x\<in>set (e # after). \<not> encrypted_step x)"
proof -
  from assms(2) have "e \<in> set (trace s)" by simp
  with assms(3) have "\<not> (\<forall>x\<in>set (trace s). \<not> plain_step x)" by blast
  with run_two_phases [OF assms(1)] obtain d B where
    d: "entered w = Inr d" and
    shape: "trace s = (Prompt ''Enter the duration of the iperf test in seconds: '' #
                        macsec_events cfg w d @ [Terminate 0]) @ B" and
    B: "\<forall>x\<in>set B. \<not> encrypted_step x"
    by blast
  let ?A = "Prompt ''Enter the duration of the iperf test in seconds: '' # macsec_events cfg w d @ [Terminate 0]"
  have A: "\<forall>x\<in>set ?A. \<not> plain_step x"
    by (auto simp: plain_step_def dest: macsec_no_plain)
  from shape assms(2) have "?A @ B = before @ e # after" by simp
  from split_after_prefix [OF this A assms(3)] obtain mid where
    before: "before = ?A @ mid" and rest: "B = mid @ e # after"
    by blast
  have "subseq [Popen 0 (server_cmd (the (globals w ''server1''))), Sleep 1,
                Popen 1 (client_cmd (line146 cfg) d (line142 cfg)), Read 1, Terminate 0] ?A"
    by (rule macsec_in_order)
  then have "subseq [Popen 0 (server_cmd (the (globals w ''server1''))), Sleep 1,
                Popen 1 (client_cmd (line146 cfg) d (line142 cfg)), Read 1, Terminate 0] (?A @ mid)"
    by (rule subseq_rev_drop_many)
  moreover from B rest have "\<forall>x\<in>set (e # after). \<not> encrypted_step x"
    by auto
  ultimately show ?thesis
    using before d by simp
qed

text \<open>The run with two reports, split at the start of the second server (event 12).\<close>

theorem plain_session_after_macsec_session_witness:
  "plain_step (trace (snd (run filled_in (patched 2 two_reports))) ! 12)
   \<and> subseq [Popen 0 (server_cmd ''g1''), Sleep 1, Popen 1 (client_cmd ''ns2'' 2 ''ns1''), Read 1, Terminate 0]
        (take 12 (trace (snd (run filled_in (patched 2 two_reports)))))
   \<and> list_all (\<lambda>x. \<not> encrypted_step x) (drop 12 (trace (snd (run filled_in (patched 2 two_reports)))))"
  using plain_session_after_macsec_session [OF patched_run, of
      "[Prompt ''Enter the duration of the iperf test in seconds: '',
        Print (announce ''ns2''), Popen 0 (server_cmd ''g1''), Sleep 1,
        Print (running_first ''ns1'' 2), Popen 1 (client_cmd ''ns2'' 2 ''ns1''),
        Progress ''MACsec Progress'', Sleep 1, Sleep 1, Read 1, Terminate 0,
        Print (announce ''ns4'')]"
      "Popen 2 (server_cmd ''g2'')"
      "[Sleep 1, Print (running_second ''ns3'' 2), Popen 3 (client_cmd ''ns2'' 2 ''ns3''),
        Progress ''Plain Progress'', Sleep 1, Sleep 1, Read 3, Terminate 2,
        Plot ([1, 2], [9.4, 9.1]) ([1, 2], [9.5, 9.3]),
        Show (projr (plot_bandwidth [1, 2] [9.4, 9.1] [1, 2] [9.5, 9.3]))]"]
  by (simp add: patched_run plain_step_def encrypted_step_def patched_fields filled_in_fields)

end
